theory Spec2Isabelle
  imports Main "HOL-Library.Word" "HOL-Library.Signed_Division"
begin

unbundle bit_operations_syntax

section \<open>Machine words\<close>

text \<open>
  The C types of \<^verbatim>\<open>riscv.c\<close>: \<^verbatim>\<open>uint8_t\<close>, \<^verbatim>\<open>uint16_t\<close>, \<^verbatim>\<open>uint32_t\<close> and
  \<^verbatim>\<open>uint64_t\<close> are words of that width; \<^verbatim>\<open>int32_t\<close> and \<^verbatim>\<open>int64_t\<close> are the same
  words read through \<open>sint\<close>. Addition, subtraction and multiplication wrap around.
\<close>

type_synonym u8 = "8 word"
type_synonym u16 = "16 word"
type_synonym u32 = "32 word"
type_synonym u64 = "64 word"

section \<open>Declarations of the private header\<close>

text \<open>
  \<^verbatim>\<open>riscv.h\<close> and \<^verbatim>\<open>riscv_private.h\<close> hold the constants, the exception enum and the
  field decoders that \<^verbatim>\<open>riscv.c\<close> uses. The definitions of this section stand for them.
\<close>

text \<open>Modelled from the spec: the register indices \<^verbatim>\<open>rv_reg_zero\<close> and \<^verbatim>\<open>rv_reg_sp\<close>
  of \<^verbatim>\<open>riscv.h\<close> (x0 is the zero register, x2 the stack pointer).\<close>

definition rv_reg_zero :: u32 where
  "rv_reg_zero = 0"

definition rv_reg_sp :: u32 where
  "rv_reg_sp = 2"

text \<open>Modelled from the spec: \<^verbatim>\<open>RV_NUM_REGS\<close> of \<^verbatim>\<open>riscv.h\<close>, the 32 registers of
  each register file.\<close>

definition RV_NUM_REGS :: u32 where
  "RV_NUM_REGS = 32"

text \<open>Modelled from the spec: the exception enum of \<^verbatim>\<open>riscv.h\<close>, a tagged value drawn
  from none and instruction-misaligned. The run loop tests the latch for none.\<close>

datatype rv_exception = rv_except_none | rv_except_inst_misaligned

text \<open>Modelled from the spec: the CSR indices of \<^verbatim>\<open>riscv_private.h\<close>, with the numbers
  the RISC-V privileged specification gives them.\<close>

definition CSR_FCSR :: u32 where
  "CSR_FCSR = 0x003"

definition CSR_MSTATUS :: u32 where
  "CSR_MSTATUS = 0x300"

definition CSR_CYCLE :: u32 where
  "CSR_CYCLE = 0xC00"

definition CSR_CYCLEH :: u32 where
  "CSR_CYCLEH = 0xC80"

text \<open>Modelled from the spec: the mask \<^verbatim>\<open>INST_6_2\<close> of bits 6 to 2 of the instruction
  word, which index the dispatch table.\<close>

definition INST_6_2 :: u32 where
  "INST_6_2 = 0x7c"

subsection \<open>Field decoders\<close>

text \<open>Modelled from the spec: the decoders \<^verbatim>\<open>dec_*\<close> of \<^verbatim>\<open>riscv_private.h\<close>, pure and
  total functions of the 32-bit instruction word that extract the register indices, funct3,
  funct7, the CSR index and the sign-extended immediate of each RISC-V format.\<close>

definition dec_rd :: "u32 \<Rightarrow> u32" where
  "dec_rd inst = drop_bit 7 inst AND 0x1f"

definition dec_rs1 :: "u32 \<Rightarrow> u32" where
  "dec_rs1 inst = drop_bit 15 inst AND 0x1f"

definition dec_rs2 :: "u32 \<Rightarrow> u32" where
  "dec_rs2 inst = drop_bit 20 inst AND 0x1f"

definition dec_funct3 :: "u32 \<Rightarrow> u32" where
  "dec_funct3 inst = drop_bit 12 inst AND 0x7"

definition dec_funct7 :: "u32 \<Rightarrow> u32" where
  "dec_funct7 inst = drop_bit 25 inst AND 0x7f"

definition dec_csr :: "u32 \<Rightarrow> u32" where
  "dec_csr inst = drop_bit 20 inst"

definition dec_r4type_fmt :: "u32 \<Rightarrow> u32" where
  "dec_r4type_fmt inst = drop_bit 25 inst AND 0x3"

definition dec_r4type_rs3 :: "u32 \<Rightarrow> u32" where
  "dec_r4type_rs3 inst = drop_bit 27 inst"

definition dec_utype_imm :: "u32 \<Rightarrow> u32" where
  "dec_utype_imm inst = inst AND 0xfffff000"

definition dec_itype_imm :: "u32 \<Rightarrow> u32" where
  "dec_itype_imm inst = signed_drop_bit 20 inst"

definition dec_stype_imm :: "u32 \<Rightarrow> u32" where
  "dec_stype_imm inst =
     (if inst AND 0x80000000 \<noteq> 0 then 0xfffff000 else 0)
     OR push_bit 5 (drop_bit 25 inst AND 0x7f)
     OR (drop_bit 7 inst AND 0x1f)"

definition dec_btype_imm :: "u32 \<Rightarrow> u32" where
  "dec_btype_imm inst =
     (if inst AND 0x80000000 \<noteq> 0 then 0xfffff000 else 0)
     OR push_bit 11 (drop_bit 7 inst AND 0x1)
     OR push_bit 5 (drop_bit 25 inst AND 0x3f)
     OR push_bit 1 (drop_bit 8 inst AND 0xf)"

definition dec_jtype_imm :: "u32 \<Rightarrow> u32" where
  "dec_jtype_imm inst =
     (if inst AND 0x80000000 \<noteq> 0 then 0xfff00000 else 0)
     OR push_bit 12 (drop_bit 12 inst AND 0xff)
     OR push_bit 11 (drop_bit 20 inst AND 0x1)
     OR push_bit 1 (drop_bit 21 inst AND 0x3ff)"

text \<open>Modelled from the spec: \<^verbatim>\<open>sign_extend_b\<close> and \<^verbatim>\<open>sign_extend_h\<close> of
  \<^verbatim>\<open>riscv_private.h\<close>, the sign extension of the low byte and of the low half-word.\<close>

definition sign_extend_b :: "u32 \<Rightarrow> u32" where
  "sign_extend_b x = scast (ucast x :: u8)"

definition sign_extend_h :: "u32 \<Rightarrow> u32" where
  "sign_extend_h x = scast (ucast x :: u16)"

section \<open>Hart state and host interface\<close>

text \<open>
  The events of the host interface: one per call of a callback, with the arguments the
  hart passes. The hart keeps the history of its calls in \<open>trace\<close>, in the order the code
  makes them.
\<close>

datatype io_event =
    Io_ifetch u32
  | Io_read_w u32
  | Io_read_s u32
  | Io_read_b u32
  | Io_write_w u32 u32
  | Io_write_s u32 u16
  | Io_write_b u32 u8
  | Io_ecall u32 u32
  | Io_ebreak u32 u32

text \<open>Modelled from the spec: \<^verbatim>\<open>struct riscv_io_t\<close> of \<^verbatim>\<open>riscv.h\<close>, the callback set of the
  host: instruction fetch, memory reads and writes of a word, a half-word and a byte, and
  the ECALL and EBREAK hooks. A callback receives the hart and forwards its user data; the
  model gives it the host's own state (the user data, of type \<open>'h\<close>): a read returns a
  value, a write and a trap hook return the new host state. The callbacks do not touch the
  architectural state of the hart.\<close>

record 'h riscv_io_t =
  mem_ifetch :: "'h \<Rightarrow> u32 \<Rightarrow> u32"
  mem_read_w :: "'h \<Rightarrow> u32 \<Rightarrow> u32"
  mem_read_s :: "'h \<Rightarrow> u32 \<Rightarrow> u16"
  mem_read_b :: "'h \<Rightarrow> u32 \<Rightarrow> u8"
  mem_write_w :: "'h \<Rightarrow> u32 \<Rightarrow> u32 \<Rightarrow> 'h"
  mem_write_s :: "'h \<Rightarrow> u32 \<Rightarrow> u16 \<Rightarrow> 'h"
  mem_write_b :: "'h \<Rightarrow> u32 \<Rightarrow> u8 \<Rightarrow> 'h"
  on_ecall :: "'h \<Rightarrow> u32 \<Rightarrow> u32 \<Rightarrow> 'h"
  on_ebreak :: "'h \<Rightarrow> u32 \<Rightarrow> u32 \<Rightarrow> 'h"

text \<open>Modelled from the spec: \<^verbatim>\<open>struct riscv_t\<close> of \<^verbatim>\<open>riscv_private.h\<close>, with the fields
  \<^verbatim>\<open>riscv.c\<close> reads and writes. The register files are arrays of \<^verbatim>\<open>RV_NUM_REGS\<close>
  entries; every index the handlers use is a decoded register field, so an array is a
  function of the index. An F register is held as its 32-bit pattern, the four bytes that
  \<^verbatim>\<open>memcpy\<close> moves between the two register files.\<close>

record 'h riscv_t =
  io :: "'h riscv_io_t"
  X :: "u32 \<Rightarrow> u32"
  PC :: u32
  F :: "u32 \<Rightarrow> u32"
  csr_cycle :: u64
  csr_mstatus :: u32
  csr_fcsr :: u32
  exception :: rv_exception
  userdata :: 'h
  trace :: "io_event list"

text \<open>
  The host's single-precision arithmetic (C's \<^verbatim>\<open>float\<close> operators, \<^verbatim>\<open>sqrtf\<close>,
  \<^verbatim>\<open>fminf\<close>, \<^verbatim>\<open>fmaxf\<close> and the conversions) on bit patterns. The handlers take it as a
  parameter.
\<close>

record host_float_t =
  f_add :: "u32 \<Rightarrow> u32 \<Rightarrow> u32"
  f_sub :: "u32 \<Rightarrow> u32 \<Rightarrow> u32"
  f_mul :: "u32 \<Rightarrow> u32 \<Rightarrow> u32"
  f_div :: "u32 \<Rightarrow> u32 \<Rightarrow> u32"
  f_neg :: "u32 \<Rightarrow> u32"
  f_sqrt :: "u32 \<Rightarrow> u32"
  f_min :: "u32 \<Rightarrow> u32 \<Rightarrow> u32"
  f_max :: "u32 \<Rightarrow> u32 \<Rightarrow> u32"
  f_to_int32 :: "u32 \<Rightarrow> u32"
  f_to_uint32 :: "u32 \<Rightarrow> u32"
  f_of_int32 :: "u32 \<Rightarrow> u32"
  f_of_uint32 :: "u32 \<Rightarrow> u32"
  f_eq :: "u32 \<Rightarrow> u32 \<Rightarrow> bool"
  f_lt :: "u32 \<Rightarrow> u32 \<Rightarrow> bool"
  f_le :: "u32 \<Rightarrow> u32 \<Rightarrow> bool"

subsection \<open>Calling the host\<close>

definition io_mem_ifetch :: "'h riscv_t \<Rightarrow> u32 \<Rightarrow> u32 \<times> 'h riscv_t" where
  "io_mem_ifetch rv addr =
     (mem_ifetch (io rv) (userdata rv) addr, rv\<lparr>trace := trace rv @ [Io_ifetch addr]\<rparr>)"

definition io_mem_read_w :: "'h riscv_t \<Rightarrow> u32 \<Rightarrow> u32 \<times> 'h riscv_t" where
  "io_mem_read_w rv addr =
     (mem_read_w (io rv) (userdata rv) addr, rv\<lparr>trace := trace rv @ [Io_read_w addr]\<rparr>)"

definition io_mem_read_s :: "'h riscv_t \<Rightarrow> u32 \<Rightarrow> u16 \<times> 'h riscv_t" where
  "io_mem_read_s rv addr =
     (mem_read_s (io rv) (userdata rv) addr, rv\<lparr>trace := trace rv @ [Io_read_s addr]\<rparr>)"

definition io_mem_read_b :: "'h riscv_t \<Rightarrow> u32 \<Rightarrow> u8 \<times> 'h riscv_t" where
  "io_mem_read_b rv addr =
     (mem_read_b (io rv) (userdata rv) addr, rv\<lparr>trace := trace rv @ [Io_read_b addr]\<rparr>)"

definition io_mem_write_w :: "'h riscv_t \<Rightarrow> u32 \<Rightarrow> u32 \<Rightarrow> 'h riscv_t" where
  "io_mem_write_w rv addr v =
     rv\<lparr>userdata := mem_write_w (io rv) (userdata rv) addr v,
        trace := trace rv @ [Io_write_w addr v]\<rparr>"

definition io_mem_write_s :: "'h riscv_t \<Rightarrow> u32 \<Rightarrow> u16 \<Rightarrow> 'h riscv_t" where
  "io_mem_write_s rv addr v =
     rv\<lparr>userdata := mem_write_s (io rv) (userdata rv) addr v,
        trace := trace rv @ [Io_write_s addr v]\<rparr>"

definition io_mem_write_b :: "'h riscv_t \<Rightarrow> u32 \<Rightarrow> u8 \<Rightarrow> 'h riscv_t" where
  "io_mem_write_b rv addr v =
     rv\<lparr>userdata := mem_write_b (io rv) (userdata rv) addr v,
        trace := trace rv @ [Io_write_b addr v]\<rparr>"

definition io_on_ecall :: "'h riscv_t \<Rightarrow> u32 \<Rightarrow> u32 \<Rightarrow> 'h riscv_t" where
  "io_on_ecall rv pc inst =
     rv\<lparr>userdata := on_ecall (io rv) (userdata rv) pc inst,
        trace := trace rv @ [Io_ecall pc inst]\<rparr>"

definition io_on_ebreak :: "'h riscv_t \<Rightarrow> u32 \<Rightarrow> u32 \<Rightarrow> 'h riscv_t" where
  "io_on_ebreak rv pc inst =
     rv\<lparr>userdata := on_ebreak (io rv) (userdata rv) pc inst,
        trace := trace rv @ [Io_ebreak pc inst]\<rparr>"

subsection \<open>Register writes shared by the handlers\<close>

text \<open>\<^verbatim>\<open>rv->X[rd] = v\<close> and \<^verbatim>\<open>rv->F[rd] = v\<close>.\<close>

definition set_X :: "'h riscv_t \<Rightarrow> u32 \<Rightarrow> u32 \<Rightarrow> 'h riscv_t" where
  "set_X rv rd v = rv\<lparr>X := (X rv)(rd := v)\<rparr>"

definition set_F :: "'h riscv_t \<Rightarrow> u32 \<Rightarrow> u32 \<Rightarrow> 'h riscv_t" where
  "set_F rv rd v = rv\<lparr>F := (F rv)(rd := v)\<rparr>"

text \<open>The tail of a sequential handler that writes \<^verbatim>\<open>rd\<close>:
  \<^verbatim>\<open>rv->PC += 4; if (rd == rv_reg_zero) rv->X[rv_reg_zero] = 0; return true;\<close>\<close>

definition step_over_zero :: "u32 \<Rightarrow> 'h riscv_t \<Rightarrow> (bool \<times> 'h riscv_t) option" where
  "step_over_zero rd rv =
     (let rv1 = rv\<lparr>PC := PC rv + 4\<rparr>;
          rv2 = (if rd = rv_reg_zero then set_X rv1 rv_reg_zero 0 else rv1)
      in Some (True, rv2))"

text \<open>The tail of a sequential handler that writes no integer register:
  \<^verbatim>\<open>rv->PC += 4; return true;\<close>\<close>

definition step_over :: "'h riscv_t \<Rightarrow> (bool \<times> 'h riscv_t) option" where
  "step_over rv = Some (True, rv\<lparr>PC := PC rv + 4\<rparr>)"

section \<open>Instruction handlers\<close>

text \<open>
  A handler returns \<open>Some (b, rv')\<close>: the new hart and the boolean the C handler returns
  (\<open>True\<close>: sequential, \<open>False\<close>: the handler set the PC itself). \<open>None\<close> is a failed
  \<^verbatim>\<open>assert\<close>, which halts the process. The model has every extension compiled in
  (M, A, F, Zicsr, Zifencei) and the interpreter's run loop (no JIT).
\<close>

type_synonym 'h handler_result = "(bool \<times> 'h riscv_t) option"

subsection \<open>LOAD, MISC-MEM, OP-IMM, AUIPC, STORE\<close>

definition op_load :: "'h riscv_t \<Rightarrow> u32 \<Rightarrow> 'h handler_result" where
  "op_load rv inst =
     (let imm = dec_itype_imm inst;
          rs1 = dec_rs1 inst;
          funct3 = dec_funct3 inst;
          rd = dec_rd inst;
          addr = X rv rs1 + imm;
          r = (if funct3 = 0 then
                 (let (v, rv1) = io_mem_read_b rv addr in Some (set_X rv1 rd (sign_extend_b (ucast v))))
               else if funct3 = 1 then
                 (let (v, rv1) = io_mem_read_s rv addr in Some (set_X rv1 rd (sign_extend_h (ucast v))))
               else if funct3 = 2 then
                 (let (v, rv1) = io_mem_read_w rv addr in Some (set_X rv1 rd v))
               else if funct3 = 4 then
                 (let (v, rv1) = io_mem_read_b rv addr in Some (set_X rv1 rd (ucast v)))
               else if funct3 = 5 then
                 (let (v, rv1) = io_mem_read_s rv addr in Some (set_X rv1 rd (ucast v)))
               else None)
      in case r of None \<Rightarrow> None | Some rv1 \<Rightarrow> step_over_zero rd rv1)"

definition op_misc_mem :: "'h riscv_t \<Rightarrow> u32 \<Rightarrow> 'h handler_result" where
  "op_misc_mem rv inst = step_over rv"

definition op_op_imm :: "'h riscv_t \<Rightarrow> u32 \<Rightarrow> 'h handler_result" where
  "op_op_imm rv inst =
     (let imm = dec_itype_imm inst;
          rd = dec_rd inst;
          rs1 = dec_rs1 inst;
          funct3 = dec_funct3 inst;
          r = (if funct3 = 0 then Some (set_X rv rd (X rv rs1 + imm))
               else if funct3 = 1 then
                 Some (set_X rv rd (push_bit (unat (imm AND 0x1f)) (X rv rs1)))
               else if funct3 = 2 then
                 Some (set_X rv rd (if sint (X rv rs1) < sint imm then 1 else 0))
               else if funct3 = 3 then
                 Some (set_X rv rd (if X rv rs1 < imm then 1 else 0))
               else if funct3 = 4 then Some (set_X rv rd (X rv rs1 XOR imm))
               else if funct3 = 5 then
                 (if imm AND NOT 0x1f \<noteq> 0
                  then Some (set_X rv rd (signed_drop_bit (unat (imm AND 0x1f)) (X rv rs1)))
                  else Some (set_X rv rd (drop_bit (unat (imm AND 0x1f)) (X rv rs1))))
               else if funct3 = 6 then Some (set_X rv rd (X rv rs1 OR imm))
               else if funct3 = 7 then Some (set_X rv rd (X rv rs1 AND imm))
               else None)
      in case r of None \<Rightarrow> None | Some rv1 \<Rightarrow> step_over_zero rd rv1)"

definition op_auipc :: "'h riscv_t \<Rightarrow> u32 \<Rightarrow> 'h handler_result" where
  "op_auipc rv inst =
     (let rd = dec_rd inst;
          val = dec_utype_imm inst + PC rv
      in step_over_zero rd (set_X rv rd val))"

definition op_store :: "'h riscv_t \<Rightarrow> u32 \<Rightarrow> 'h handler_result" where
  "op_store rv inst =
     (let imm = dec_stype_imm inst;
          rs1 = dec_rs1 inst;
          rs2 = dec_rs2 inst;
          funct3 = dec_funct3 inst;
          addr = X rv rs1 + imm;
          data = X rv rs2;
          r = (if funct3 = 0 then Some (io_mem_write_b rv addr (ucast data))
               else if funct3 = 1 then Some (io_mem_write_s rv addr (ucast data))
               else if funct3 = 2 then Some (io_mem_write_w rv addr data)
               else None)
      in case r of None \<Rightarrow> None | Some rv1 \<Rightarrow> step_over rv1)"

subsection \<open>OP, with the RV32M instructions\<close>

text \<open>
  C's \<^verbatim>\<open>/\<close> and \<^verbatim>\<open>%\<close> on \<^verbatim>\<open>int32_t\<close> truncate towards zero: \<open>sdiv\<close> and \<open>smod\<close> on
  the signed values. On \<^verbatim>\<open>uint32_t\<close> they are \<open>div\<close> and \<open>mod\<close> of the words. The
  handler tests the divisor for zero before either.
\<close>

definition op_op :: "'h riscv_t \<Rightarrow> u32 \<Rightarrow> 'h handler_result" where
  "op_op rv inst =
     (let rd = dec_rd inst;
          funct3 = dec_funct3 inst;
          rs1 = dec_rs1 inst;
          rs2 = dec_rs2 inst;
          funct7 = dec_funct7 inst;
          r = (if funct7 = 0 then
                 (if funct3 = 0 then Some (set_X rv rd (X rv rs1 + X rv rs2))
                  else if funct3 = 1 then
                    Some (set_X rv rd (push_bit (unat (X rv rs2 AND 0x1f)) (X rv rs1)))
                  else if funct3 = 2 then
                    Some (set_X rv rd (if sint (X rv rs1) < sint (X rv rs2) then 1 else 0))
                  else if funct3 = 3 then
                    Some (set_X rv rd (if X rv rs1 < X rv rs2 then 1 else 0))
                  else if funct3 = 4 then Some (set_X rv rd (X rv rs1 XOR X rv rs2))
                  else if funct3 = 5 then
                    Some (set_X rv rd (drop_bit (unat (X rv rs2 AND 0x1f)) (X rv rs1)))
                  else if funct3 = 6 then Some (set_X rv rd (X rv rs1 OR X rv rs2))
                  else if funct3 = 7 then Some (set_X rv rd (X rv rs1 AND X rv rs2))
                  else None)
               else if funct7 = 1 then
                 (if funct3 = 0 then Some (set_X rv rd (X rv rs1 * X rv rs2))
                  else if funct3 = 1 then
                    (let a = (scast (X rv rs1) :: u64);
                         b = (scast (X rv rs2) :: u64)
                     in Some (set_X rv rd (ucast (drop_bit 32 (a * b)))))
                  else if funct3 = 2 then
                    (let a = (scast (X rv rs1) :: u64);
                         b = (ucast (X rv rs2) :: u64)
                     in Some (set_X rv rd (ucast (drop_bit 32 (a * b)))))
                  else if funct3 = 3 then
                    Some (set_X rv rd
                      (ucast (drop_bit 32 ((ucast (X rv rs1) :: u64) * (ucast (X rv rs2) :: u64)))))
                  else if funct3 = 4 then
                    (let dividend = X rv rs1;
                         divisor = X rv rs2
                     in if divisor = 0 then Some (set_X rv rd (NOT 0))
                        else if divisor = - 1 \<and> X rv rs1 = 0x80000000
                        then Some (set_X rv rd (X rv rs1))
                        else Some (set_X rv rd (word_of_int (sint dividend sdiv sint divisor))))
                  else if funct3 = 5 then
                    (let dividend = X rv rs1;
                         divisor = X rv rs2
                     in if divisor = 0 then Some (set_X rv rd (NOT 0))
                        else Some (set_X rv rd (dividend div divisor)))
                  else if funct3 = 6 then
                    (let dividend = X rv rs1;
                         divisor = X rv rs2
                     in if divisor = 0 then Some (set_X rv rd dividend)
                        else if divisor = - 1 \<and> X rv rs1 = 0x80000000
                        then Some (set_X rv rd 0)
                        else Some (set_X rv rd (word_of_int (sint dividend smod sint divisor))))
                  else if funct3 = 7 then
                    (let dividend = X rv rs1;
                         divisor = X rv rs2
                     in if divisor = 0 then Some (set_X rv rd dividend)
                        else Some (set_X rv rd (dividend mod divisor)))
                  else None)
               else if funct7 = 0x20 then
                 (if funct3 = 0 then Some (set_X rv rd (X rv rs1 - X rv rs2))
                  else if funct3 = 5 then
                    Some (set_X rv rd (signed_drop_bit (unat (X rv rs2 AND 0x1f)) (X rv rs1)))
                  else None)
               else None)
      in case r of None \<Rightarrow> None | Some rv1 \<Rightarrow> step_over_zero rd rv1)"

subsection \<open>LUI, BRANCH, JALR, JAL\<close>

definition op_lui :: "'h riscv_t \<Rightarrow> u32 \<Rightarrow> 'h handler_result" where
  "op_lui rv inst =
     (let rd = dec_rd inst;
          val = dec_utype_imm inst
      in step_over_zero rd (set_X rv rd val))"

text \<open>\<^verbatim>\<open>raise_exception\<close>: latch the exception.\<close>

definition raise_exception :: "'h riscv_t \<Rightarrow> rv_exception \<Rightarrow> 'h riscv_t" where
  "raise_exception rv type = rv\<lparr>exception := type\<rparr>"

text \<open>The \<^verbatim>\<open>switch\<close> of \<^verbatim>\<open>op_branch\<close> that computes \<^verbatim>\<open>taken\<close>; its default case is a
  failed assertion.\<close>

definition branch_taken :: "'h riscv_t \<Rightarrow> u32 \<Rightarrow> bool option" where
  "branch_taken rv inst =
     (let func3 = dec_funct3 inst;
          rs1 = dec_rs1 inst;
          rs2 = dec_rs2 inst
      in if func3 = 0 then Some (X rv rs1 = X rv rs2)
         else if func3 = 1 then Some (X rv rs1 \<noteq> X rv rs2)
         else if func3 = 4 then Some (sint (X rv rs1) < sint (X rv rs2))
         else if func3 = 5 then Some (sint (X rv rs1) \<ge> sint (X rv rs2))
         else if func3 = 6 then Some (X rv rs1 < X rv rs2)
         else if func3 = 7 then Some (X rv rs1 \<ge> X rv rs2)
         else None)"

definition op_branch :: "'h riscv_t \<Rightarrow> u32 \<Rightarrow> 'h handler_result" where
  "op_branch rv inst =
     (let imm = dec_btype_imm inst
      in case branch_taken rv inst of
           None \<Rightarrow> None
         | Some taken \<Rightarrow>
             if taken then
               (let rv1 = rv\<lparr>PC := PC rv + imm\<rparr>;
                    rv2 = (if PC rv1 AND 0x3 \<noteq> 0
                           then raise_exception rv1 rv_except_inst_misaligned else rv1)
                in Some (False, rv2))
             else Some (False, rv\<lparr>PC := PC rv + 4\<rparr>))"

definition op_jalr :: "'h riscv_t \<Rightarrow> u32 \<Rightarrow> 'h handler_result" where
  "op_jalr rv inst =
     (let rd = dec_rd inst;
          rs1 = dec_rs1 inst;
          imm = dec_itype_imm inst;
          ra = PC rv + 4;
          rv1 = rv\<lparr>PC := (X rv rs1 + imm) AND NOT 1\<rparr>;
          rv2 = (if rd \<noteq> rv_reg_zero then set_X rv1 rd ra else rv1);
          rv3 = (if PC rv2 AND 0x3 \<noteq> 0
                 then raise_exception rv2 rv_except_inst_misaligned else rv2)
      in Some (False, rv3))"

definition op_jal :: "'h riscv_t \<Rightarrow> u32 \<Rightarrow> 'h handler_result" where
  "op_jal rv inst =
     (let rd = dec_rd inst;
          rel = dec_jtype_imm inst;
          ra = PC rv + 4;
          rv1 = rv\<lparr>PC := PC rv + rel\<rparr>;
          rv2 = (if rd \<noteq> rv_reg_zero then set_X rv1 rd ra else rv1);
          rv3 = (if PC rv2 AND 0x3 \<noteq> 0
                 then raise_exception rv2 rv_except_inst_misaligned else rv2)
      in Some (False, rv3))"

subsection \<open>SYSTEM, with the Zicsr instructions\<close>

text \<open>
  \<^verbatim>\<open>csr_get_ptr\<close> returns a pointer to a 32-bit cell of the hart, or \<^verbatim>\<open>NULL\<close>. The
  cells are the low and the high half of the 64-bit \<^verbatim>\<open>csr_cycle\<close> (little-endian, as
  the pointer arithmetic of the source assumes), \<^verbatim>\<open>csr_mstatus\<close> and \<^verbatim>\<open>csr_fcsr\<close>.
\<close>

datatype csr_ptr = Ptr_cycle_lo | Ptr_cycle_hi | Ptr_mstatus | Ptr_fcsr

definition csr_get_ptr :: "u32 \<Rightarrow> csr_ptr option" where
  "csr_get_ptr csr =
     (if csr = CSR_CYCLE then Some Ptr_cycle_lo
      else if csr = CSR_CYCLEH then Some Ptr_cycle_hi
      else if csr = CSR_MSTATUS then Some Ptr_mstatus
      else if csr = CSR_FCSR then Some Ptr_fcsr
      else None)"

fun csr_deref :: "'h riscv_t \<Rightarrow> csr_ptr \<Rightarrow> u32" where
  "csr_deref rv Ptr_cycle_lo = ucast (csr_cycle rv)"
| "csr_deref rv Ptr_cycle_hi = ucast (drop_bit 32 (csr_cycle rv))"
| "csr_deref rv Ptr_mstatus = csr_mstatus rv"
| "csr_deref rv Ptr_fcsr = csr_fcsr rv"

fun csr_assign :: "'h riscv_t \<Rightarrow> csr_ptr \<Rightarrow> u32 \<Rightarrow> 'h riscv_t" where
  "csr_assign rv Ptr_cycle_lo v =
     rv\<lparr>csr_cycle := push_bit 32 (drop_bit 32 (csr_cycle rv)) OR ucast v\<rparr>"
| "csr_assign rv Ptr_cycle_hi v =
     rv\<lparr>csr_cycle := push_bit 32 (ucast v) OR ucast (ucast (csr_cycle rv) :: u32)\<rparr>"
| "csr_assign rv Ptr_mstatus v = rv\<lparr>csr_mstatus := v\<rparr>"
| "csr_assign rv Ptr_fcsr v = rv\<lparr>csr_fcsr := v\<rparr>"

definition csr_is_writable :: "u32 \<Rightarrow> bool" where
  "csr_is_writable csr = (csr = CSR_MSTATUS)"

definition csr_csrrw :: "'h riscv_t \<Rightarrow> u32 \<Rightarrow> u32 \<Rightarrow> u32 \<times> 'h riscv_t" where
  "csr_csrrw rv csr val =
     (case csr_get_ptr csr of
        None \<Rightarrow> (0, rv)
      | Some c \<Rightarrow>
          (let out = csr_deref rv c
           in (out, if csr_is_writable csr then csr_assign rv c val else rv)))"

definition csr_csrrs :: "'h riscv_t \<Rightarrow> u32 \<Rightarrow> u32 \<Rightarrow> u32 \<times> 'h riscv_t" where
  "csr_csrrs rv csr val =
     (case csr_get_ptr csr of
        None \<Rightarrow> (0, rv)
      | Some c \<Rightarrow>
          (let out = csr_deref rv c
           in (out, if csr_is_writable csr then csr_assign rv c (csr_deref rv c OR val) else rv)))"

definition csr_csrrc :: "'h riscv_t \<Rightarrow> u32 \<Rightarrow> u32 \<Rightarrow> u32 \<times> 'h riscv_t" where
  "csr_csrrc rv csr val =
     (case csr_get_ptr csr of
        None \<Rightarrow> (0, rv)
      | Some c \<Rightarrow>
          (let out = csr_deref rv c
           in (out, if csr_is_writable csr then csr_assign rv c (csr_deref rv c AND NOT val) else rv)))"

text \<open>The CSR helpers are passed the register index \<^verbatim>\<open>rs1\<close>, as the source writes it.\<close>

definition op_system :: "'h riscv_t \<Rightarrow> u32 \<Rightarrow> 'h handler_result" where
  "op_system rv inst =
     (let imm = dec_itype_imm inst;
          csr = dec_csr inst;
          funct3 = dec_funct3 inst;
          rs1 = dec_rs1 inst;
          rd = dec_rd inst;
          r = (if funct3 = 0 then
                 (if imm = 0 then Some (io_on_ecall rv (PC rv) inst)
                  else if imm = 1 then Some (io_on_ebreak rv (PC rv) inst)
                  else None)
               else if funct3 = 1 then
                 (let (out, rv1) = csr_csrrw rv csr rs1 in Some (set_X rv1 rd out))
               else if funct3 = 2 then
                 (let (out, rv1) = csr_csrrs rv csr rs1 in Some (set_X rv1 rd out))
               else if funct3 = 3 then
                 (let (out, rv1) = csr_csrrc rv csr rs1 in Some (set_X rv1 rd out))
               else if funct3 = 5 \<or> funct3 = 6 \<or> funct3 = 7 then Some rv
               else None)
      in case r of None \<Rightarrow> None | Some rv1 \<Rightarrow> step_over_zero rd rv1)"

subsection \<open>AMO (RV32A)\<close>

text \<open>
  The AMO cases pass the register index \<^verbatim>\<open>rs1\<close> to the callbacks and write through
  \<^verbatim>\<open>mem_write_s\<close>, whose value parameter is a \<^verbatim>\<open>uint16_t\<close>: the 32-bit result is
  truncated to its low half-word. \<^verbatim>\<open>LR.W\<close> and \<^verbatim>\<open>SC.W\<close> pass \<^verbatim>\<open>rv->X[rs1]\<close> and
  \<^verbatim>\<open>SC.W\<close> writes through \<^verbatim>\<open>mem_write_w\<close>.
\<close>

definition op_amo :: "'h riscv_t \<Rightarrow> u32 \<Rightarrow> 'h handler_result" where
  "op_amo rv inst =
     (let rd = dec_rd inst;
          rs1 = dec_rs1 inst;
          rs2 = dec_rs2 inst;
          f7 = dec_funct7 inst;
          rl = drop_bit 0 f7 AND 1;
          aq = drop_bit 1 f7 AND 1;
          funct5 = drop_bit 2 f7 AND 0x1f;
          r = (if funct5 = 0x02 then
                 (let (v, rv1) = io_mem_read_w rv (X rv rs1) in Some (set_X rv1 rd v))
               else if funct5 = 0x03 then
                 (let rv1 = io_mem_write_w rv (X rv rs1) (X rv rs2) in Some (set_X rv1 rd 0))
               else if funct5 = 0x01 then
                 (let (v, rv1) = io_mem_read_w rv rs1;
                      rv2 = set_X rv1 rd v
                  in Some (io_mem_write_s rv2 rs1 (ucast (X rv2 rs2))))
               else if funct5 = 0x00 then
                 (let (v, rv1) = io_mem_read_w rv rs1;
                      rv2 = set_X rv1 rd v;
                      res = X rv2 rd + X rv2 rs2
                  in Some (io_mem_write_s rv2 rs1 (ucast res)))
               else if funct5 = 0x04 then
                 (let (v, rv1) = io_mem_read_w rv rs1;
                      rv2 = set_X rv1 rd v;
                      res = X rv2 rd XOR X rv2 rs2
                  in Some (io_mem_write_s rv2 rs1 (ucast res)))
               else if funct5 = 0x0c then
                 (let (v, rv1) = io_mem_read_w rv rs1;
                      rv2 = set_X rv1 rd v;
                      res = X rv2 rd AND X rv2 rs2
                  in Some (io_mem_write_s rv2 rs1 (ucast res)))
               else if funct5 = 0x08 then
                 (let (v, rv1) = io_mem_read_w rv rs1;
                      rv2 = set_X rv1 rd v;
                      res = X rv2 rd OR X rv2 rs2
                  in Some (io_mem_write_s rv2 rs1 (ucast res)))
               else if funct5 = 0x10 then
                 (let (v, rv1) = io_mem_read_w rv rs1;
                      rv2 = set_X rv1 rd v;
                      a = X rv2 rd;
                      b = X rv2 rs2;
                      res = (if sint a < sint b then a else b)
                  in Some (io_mem_write_s rv2 rs1 (ucast res)))
               else if funct5 = 0x14 then
                 (let (v, rv1) = io_mem_read_w rv rs1;
                      rv2 = set_X rv1 rd v;
                      a = X rv2 rd;
                      b = X rv2 rs2;
                      res = (if sint a > sint b then a else b)
                  in Some (io_mem_write_s rv2 rs1 (ucast res)))
               else if funct5 = 0x18 then
                 (let (v, rv1) = io_mem_read_w rv rs1;
                      rv2 = set_X rv1 rd v;
                      a = X rv2 rd;
                      b = X rv2 rs2;
                      res = (if a < b then a else b)
                  in Some (io_mem_write_s rv2 rs1 (ucast res)))
               else if funct5 = 0x1c then
                 (let (v, rv1) = io_mem_read_w rv rs1;
                      rv2 = set_X rv1 rd v;
                      a = X rv2 rd;
                      b = X rv2 rs2;
                      res = (if a > b then a else b)
                  in Some (io_mem_write_s rv2 rs1 (ucast res)))
               else None)
      in case r of None \<Rightarrow> None | Some rv1 \<Rightarrow> step_over_zero rd rv1)"

subsection \<open>RV32F\<close>

definition FMASK_SIGN :: u32 where
  "FMASK_SIGN = 0x80000000"

definition FMASK_EXPN :: u32 where
  "FMASK_EXPN = 0x7f800000"

definition FMASK_FRAC :: u32 where
  "FMASK_FRAC = 0x007fffff"

definition calc_fclass :: "u32 \<Rightarrow> u32" where
  "calc_fclass f =
     (let sign = f AND FMASK_SIGN;
          expn = f AND FMASK_EXPN;
          frac = f AND FMASK_FRAC;
          out = 0;
          out = out OR (if f = 0xff800000 then 0x001 else 0);
          out = out OR (if expn \<noteq> 0 \<and> expn < 0x78000000 \<and> sign \<noteq> 0 then 0x002 else 0);
          out = out OR (if expn = 0 \<and> frac \<noteq> 0 \<and> sign \<noteq> 0 then 0x004 else 0);
          out = out OR (if f = 0x80000000 then 0x008 else 0);
          out = out OR (if f = 0x00000000 then 0x010 else 0);
          out = out OR (if expn = 0 \<and> frac \<noteq> 0 \<and> sign = 0 then 0x020 else 0);
          out = out OR (if expn \<noteq> 0 \<and> expn < 0x78000000 \<and> sign = 0 then 0x040 else 0);
          out = out OR (if f = 0x7f800000 then 0x080 else 0);
          out = out OR (if expn = FMASK_EXPN \<and> frac \<le> 0x7ff \<and> frac \<noteq> 0 then 0x100 else 0);
          out = out OR (if expn = FMASK_EXPN \<and> frac \<ge> 0x800 then 0x200 else 0)
      in out)"

definition op_load_fp :: "'h riscv_t \<Rightarrow> u32 \<Rightarrow> 'h handler_result" where
  "op_load_fp rv inst =
     (let rd = dec_rd inst;
          rs1 = dec_rs1 inst;
          imm = dec_itype_imm inst;
          addr = X rv rs1 + imm;
          (data, rv1) = io_mem_read_w rv addr
      in step_over (set_F rv1 rd data))"

definition op_store_fp :: "'h riscv_t \<Rightarrow> u32 \<Rightarrow> 'h handler_result" where
  "op_store_fp rv inst =
     (let rs1 = dec_rs1 inst;
          rs2 = dec_rs2 inst;
          imm = dec_stype_imm inst;
          addr = X rv rs1 + imm;
          data = F rv rs2
      in step_over (io_mem_write_w rv addr data))"

text \<open>\<^verbatim>\<open>op_fp\<close> ends with \<^verbatim>\<open>rv->PC += 4; return true;\<close> for every case, those that write
  \<^verbatim>\<open>rv->X[rd]\<close> included.\<close>

definition op_fp :: "host_float_t \<Rightarrow> 'h riscv_t \<Rightarrow> u32 \<Rightarrow> 'h handler_result" where
  "op_fp fp rv inst =
     (let rd = dec_rd inst;
          rs1 = dec_rs1 inst;
          rs2 = dec_rs2 inst;
          rm = dec_funct3 inst;
          funct7 = dec_funct7 inst;
          r = (if funct7 = 0x00 then Some (set_F rv rd (f_add fp (F rv rs1) (F rv rs2)))
               else if funct7 = 0x04 then Some (set_F rv rd (f_sub fp (F rv rs1) (F rv rs2)))
               else if funct7 = 0x08 then Some (set_F rv rd (f_mul fp (F rv rs1) (F rv rs2)))
               else if funct7 = 0x0c then Some (set_F rv rd (f_div fp (F rv rs1) (F rv rs2)))
               else if funct7 = 0x2c then Some (set_F rv rd (f_sqrt fp (F rv rs1)))
               else if funct7 = 0x10 then
                 (let f1 = F rv rs1;
                      f2 = F rv rs2
                  in if rm = 0 then
                       Some (set_F rv rd ((f1 AND NOT FMASK_SIGN) OR (f2 AND FMASK_SIGN)))
                     else if rm = 1 then
                       Some (set_F rv rd ((f1 AND NOT FMASK_SIGN) OR (NOT f2 AND FMASK_SIGN)))
                     else if rm = 2 then
                       Some (set_F rv rd (f1 XOR (f2 AND FMASK_SIGN)))
                     else None)
               else if funct7 = 0x14 then
                 (if rm = 0 then Some (set_F rv rd (f_min fp (F rv rs1) (F rv rs2)))
                  else if rm = 1 then Some (set_F rv rd (f_max fp (F rv rs1) (F rv rs2)))
                  else None)
               else if funct7 = 0x60 then
                 (if rs2 = 0 then Some (set_X rv rd (f_to_int32 fp (F rv rs1)))
                  else if rs2 = 1 then Some (set_X rv rd (f_to_uint32 fp (F rv rs1)))
                  else None)
               else if funct7 = 0x70 then
                 (if rm = 0 then Some (set_X rv rd (F rv rs1))
                  else if rm = 1 then
                    (let bits = F rv rs1 in Some (set_X rv rd (calc_fclass bits)))
                  else None)
               else if funct7 = 0x50 then
                 (if rm = 2 then
                    Some (set_X rv rd (if f_eq fp (F rv rs1) (F rv rs2) then 1 else 0))
                  else if rm = 1 then
                    Some (set_X rv rd (if f_lt fp (F rv rs1) (F rv rs2) then 1 else 0))
                  else if rm = 0 then
                    Some (set_X rv rd (if f_le fp (F rv rs1) (F rv rs2) then 1 else 0))
                  else None)
               else if funct7 = 0x68 then
                 (if rs2 = 0 then Some (set_F rv rd (f_of_int32 fp (X rv rs1)))
                  else if rs2 = 1 then Some (set_F rv rd (f_of_uint32 fp (X rv rs1)))
                  else None)
               else if funct7 = 0x78 then Some (set_F rv rd (X rv rs1))
               else None)
      in case r of None \<Rightarrow> None | Some rv1 \<Rightarrow> step_over rv1)"

definition op_madd :: "host_float_t \<Rightarrow> 'h riscv_t \<Rightarrow> u32 \<Rightarrow> 'h handler_result" where
  "op_madd fp rv inst =
     (let rd = dec_rd inst;
          rs1 = dec_rs1 inst;
          rs2 = dec_rs2 inst;
          rs3 = dec_r4type_rs3 inst
      in step_over (set_F rv rd (f_add fp (f_mul fp (F rv rs1) (F rv rs2)) (F rv rs3))))"

definition op_msub :: "host_float_t \<Rightarrow> 'h riscv_t \<Rightarrow> u32 \<Rightarrow> 'h handler_result" where
  "op_msub fp rv inst =
     (let rd = dec_rd inst;
          rs1 = dec_rs1 inst;
          rs2 = dec_rs2 inst;
          rs3 = dec_r4type_rs3 inst
      in step_over (set_F rv rd (f_sub fp (f_mul fp (F rv rs1) (F rv rs2)) (F rv rs3))))"

definition op_nmsub :: "host_float_t \<Rightarrow> 'h riscv_t \<Rightarrow> u32 \<Rightarrow> 'h handler_result" where
  "op_nmsub fp rv inst =
     (let rd = dec_rd inst;
          rs1 = dec_rs1 inst;
          rs2 = dec_rs2 inst;
          rs3 = dec_r4type_rs3 inst
      in step_over
           (set_F rv rd (f_add fp (f_neg fp (f_mul fp (F rv rs1) (F rv rs2))) (F rv rs3))))"

definition op_nmadd :: "host_float_t \<Rightarrow> 'h riscv_t \<Rightarrow> u32 \<Rightarrow> 'h handler_result" where
  "op_nmadd fp rv inst =
     (let rd = dec_rd inst;
          rs1 = dec_rs1 inst;
          rs2 = dec_rs2 inst;
          rs3 = dec_r4type_rs3 inst
      in step_over
           (set_F rv rd (f_sub fp (f_neg fp (f_mul fp (F rv rs1) (F rv rs2))) (F rv rs3))))"

section \<open>Dispatch, run loop, reset\<close>

text \<open>The dispatch table \<^verbatim>\<open>opcodes\<close>: 32 slots, \<open>None\<close> for \<^verbatim>\<open>NULL\<close>.\<close>

definition opcodes ::
  "(host_float_t \<Rightarrow> 'h riscv_t \<Rightarrow> u32 \<Rightarrow> 'h handler_result) option list" where
  "opcodes =
     [Some (\<lambda>fp. op_load), Some (\<lambda>fp. op_load_fp), None, Some (\<lambda>fp. op_misc_mem),
      Some (\<lambda>fp. op_op_imm), Some (\<lambda>fp. op_auipc), None, None,
      Some (\<lambda>fp. op_store), Some (\<lambda>fp. op_store_fp), None, Some (\<lambda>fp. op_amo),
      Some (\<lambda>fp. op_op), Some (\<lambda>fp. op_lui), None, None,
      Some op_madd, Some op_msub, Some op_nmsub, Some op_nmadd,
      Some op_fp, None, None, None,
      Some (\<lambda>fp. op_branch), Some (\<lambda>fp. op_jalr), None, Some (\<lambda>fp. op_jal),
      Some (\<lambda>fp. op_system), None, None, None]"

text \<open>
  The body of the loop of \<^verbatim>\<open>rv_step\<close> up to the handler's return: fetch at the PC, index
  the table with bits 6 to 2, \<^verbatim>\<open>assert(op)\<close>, call the handler.
\<close>

definition rv_dispatch :: "host_float_t \<Rightarrow> 'h riscv_t \<Rightarrow> 'h handler_result" where
  "rv_dispatch fp rv =
     (let (inst, rv1) = io_mem_ifetch rv (PC rv);
          index = drop_bit 2 (inst AND INST_6_2)
      in case opcodes ! unat index of
           None \<Rightarrow> None
         | Some op \<Rightarrow> op fp rv1 inst)"

subsection \<open>No handler writes the cycle counter\<close>

text \<open>
  The loop of \<^verbatim>\<open>rv_step\<close> runs while \<^verbatim>\<open>csr_cycle\<close> is below its target and is the only
  writer of \<^verbatim>\<open>csr_cycle\<close>: the CSR instructions write a CSR only when
  \<^verbatim>\<open>csr_is_writable\<close> holds, which it does for \<^verbatim>\<open>mstatus\<close> alone. The lemmas below
  establish this for every slot of the table; the loop's termination rests on them.
\<close>

lemmas io_defs = io_mem_ifetch_def io_mem_read_w_def io_mem_read_s_def io_mem_read_b_def
  io_mem_write_w_def io_mem_write_s_def io_mem_write_b_def io_on_ecall_def io_on_ebreak_def

lemma step_over_zero_cycle:
  "step_over_zero rd rv = Some (b, rv') \<Longrightarrow> csr_cycle rv' = csr_cycle rv"
  by (auto simp: step_over_zero_def set_X_def Let_def split: if_splits)

lemma step_over_cycle:
  "step_over rv = Some (b, rv') \<Longrightarrow> csr_cycle rv' = csr_cycle rv"
  by (auto simp: step_over_def)

lemma op_load_cycle: "op_load rv inst = Some (b, rv') \<Longrightarrow> csr_cycle rv' = csr_cycle rv"
  by (auto simp: op_load_def Let_def io_defs set_X_def split: if_splits option.splits dest!: step_over_zero_cycle)

lemma op_misc_mem_cycle: "op_misc_mem rv inst = Some (b, rv') \<Longrightarrow> csr_cycle rv' = csr_cycle rv"
  by (auto simp: op_misc_mem_def dest!: step_over_cycle)

lemma op_op_imm_cycle: "op_op_imm rv inst = Some (b, rv') \<Longrightarrow> csr_cycle rv' = csr_cycle rv"
  by (auto simp: op_op_imm_def Let_def io_defs set_X_def split: if_splits option.splits dest!: step_over_zero_cycle)

lemma op_auipc_cycle: "op_auipc rv inst = Some (b, rv') \<Longrightarrow> csr_cycle rv' = csr_cycle rv"
  by (auto simp: op_auipc_def Let_def set_X_def dest!: step_over_zero_cycle)

lemma op_store_cycle: "op_store rv inst = Some (b, rv') \<Longrightarrow> csr_cycle rv' = csr_cycle rv"
  by (auto simp: op_store_def Let_def io_defs split: if_splits option.splits dest!: step_over_cycle)

lemma op_op_cycle: "op_op rv inst = Some (b, rv') \<Longrightarrow> csr_cycle rv' = csr_cycle rv"
  by (auto simp: op_op_def Let_def io_defs set_X_def split: if_splits option.splits dest!: step_over_zero_cycle)

lemma op_lui_cycle: "op_lui rv inst = Some (b, rv') \<Longrightarrow> csr_cycle rv' = csr_cycle rv"
  by (auto simp: op_lui_def Let_def set_X_def dest!: step_over_zero_cycle)

lemma op_branch_cycle: "op_branch rv inst = Some (b, rv') \<Longrightarrow> csr_cycle rv' = csr_cycle rv"
  by (auto simp: op_branch_def Let_def raise_exception_def split: if_splits option.splits)

lemma op_jalr_cycle: "op_jalr rv inst = Some (b, rv') \<Longrightarrow> csr_cycle rv' = csr_cycle rv"
  by (auto simp: op_jalr_def Let_def raise_exception_def set_X_def split: if_splits)

lemma op_jal_cycle: "op_jal rv inst = Some (b, rv') \<Longrightarrow> csr_cycle rv' = csr_cycle rv"
  by (auto simp: op_jal_def Let_def raise_exception_def set_X_def split: if_splits)

lemma csr_assign_cycle:
  "csr_is_writable csr \<Longrightarrow> csr_get_ptr csr = Some c \<Longrightarrow> csr_cycle (csr_assign rv c v) = csr_cycle rv"
  by (auto simp: csr_is_writable_def csr_get_ptr_def CSR_MSTATUS_def CSR_CYCLE_def CSR_CYCLEH_def CSR_FCSR_def split: if_splits)

lemma csr_csrrw_cycle: "csr_csrrw rv csr v = (out, rv') \<Longrightarrow> csr_cycle rv' = csr_cycle rv"
  by (auto simp: csr_csrrw_def Let_def csr_assign_cycle split: option.splits if_splits)

lemma csr_csrrs_cycle: "csr_csrrs rv csr v = (out, rv') \<Longrightarrow> csr_cycle rv' = csr_cycle rv"
  by (auto simp: csr_csrrs_def Let_def csr_assign_cycle split: option.splits if_splits)

lemma csr_csrrc_cycle: "csr_csrrc rv csr v = (out, rv') \<Longrightarrow> csr_cycle rv' = csr_cycle rv"
  by (auto simp: csr_csrrc_def Let_def csr_assign_cycle split: option.splits if_splits)

lemma op_system_cycle: "op_system rv inst = Some (b, rv') \<Longrightarrow> csr_cycle rv' = csr_cycle rv"
  by (auto simp: op_system_def Let_def io_defs set_X_def
      split: if_splits option.splits prod.splits
      dest!: step_over_zero_cycle csr_csrrw_cycle csr_csrrs_cycle csr_csrrc_cycle)

lemma op_amo_cycle: "op_amo rv inst = Some (b, rv') \<Longrightarrow> csr_cycle rv' = csr_cycle rv"
  by (auto simp: op_amo_def Let_def io_defs set_X_def split: if_splits option.splits dest!: step_over_zero_cycle)

lemma op_load_fp_cycle: "op_load_fp rv inst = Some (b, rv') \<Longrightarrow> csr_cycle rv' = csr_cycle rv"
  by (auto simp: op_load_fp_def Let_def io_defs set_F_def dest!: step_over_cycle)

lemma op_store_fp_cycle: "op_store_fp rv inst = Some (b, rv') \<Longrightarrow> csr_cycle rv' = csr_cycle rv"
  by (auto simp: op_store_fp_def Let_def io_defs dest!: step_over_cycle)

lemma op_fp_cycle: "op_fp fp rv inst = Some (b, rv') \<Longrightarrow> csr_cycle rv' = csr_cycle rv"
  by (auto simp: op_fp_def Let_def set_F_def set_X_def split: if_splits option.splits dest!: step_over_cycle)

lemma op_madd_cycle: "op_madd fp rv inst = Some (b, rv') \<Longrightarrow> csr_cycle rv' = csr_cycle rv"
  by (auto simp: op_madd_def Let_def set_F_def dest!: step_over_cycle)

lemma op_msub_cycle: "op_msub fp rv inst = Some (b, rv') \<Longrightarrow> csr_cycle rv' = csr_cycle rv"
  by (auto simp: op_msub_def Let_def set_F_def dest!: step_over_cycle)

lemma op_nmsub_cycle: "op_nmsub fp rv inst = Some (b, rv') \<Longrightarrow> csr_cycle rv' = csr_cycle rv"
  by (auto simp: op_nmsub_def Let_def set_F_def dest!: step_over_cycle)

lemma op_nmadd_cycle: "op_nmadd fp rv inst = Some (b, rv') \<Longrightarrow> csr_cycle rv' = csr_cycle rv"
  by (auto simp: op_nmadd_def Let_def set_F_def dest!: step_over_cycle)

lemmas handler_cycle = op_load_cycle op_misc_mem_cycle op_op_imm_cycle op_auipc_cycle op_store_cycle
  op_op_cycle op_lui_cycle op_branch_cycle op_jalr_cycle op_jal_cycle op_system_cycle op_amo_cycle
  op_load_fp_cycle op_store_fp_cycle op_fp_cycle op_madd_cycle op_msub_cycle op_nmsub_cycle op_nmadd_cycle

lemma opcodes_cycle:
  assumes "Some op \<in> set opcodes" "op fp rv inst = Some (b, rv')"
  shows "csr_cycle rv' = csr_cycle rv"
  using assms by (auto simp: opcodes_def dest: handler_cycle)

lemma index_bound: "unat (drop_bit 2 (inst AND INST_6_2) :: u32) < 32"
proof -
  have "drop_bit 2 (inst AND INST_6_2) = (drop_bit 2 inst AND 0x1f :: u32)"
    by (simp add: INST_6_2_def drop_bit_and)
  moreover have "unat (drop_bit 2 inst AND 0x1f :: u32) \<le> unat (0x1f :: u32)"
    by (rule word_and_le1 [THEN word_le_nat_alt [THEN iffD1]])
  ultimately show ?thesis by simp
qed

lemma length_opcodes: "length opcodes = 32"
  by (simp add: opcodes_def)

lemma rv_dispatch_cycle:
  assumes "rv_dispatch fp rv = Some (b, rv')"
  shows "csr_cycle rv' = csr_cycle rv"
proof -
  obtain inst rv1 where f: "io_mem_ifetch rv (PC rv) = (inst, rv1)"
    by (cases "io_mem_ifetch rv (PC rv)")
  then have c1: "csr_cycle rv1 = csr_cycle rv"
    by (auto simp: io_mem_ifetch_def)
  define n where "n = unat (drop_bit 2 (inst AND INST_6_2))"
  have n: "n < length opcodes"
    unfolding n_def length_opcodes by (rule index_bound)
  from assms f obtain op where op: "opcodes ! n = Some op" "op fp rv1 inst = Some (b, rv')"
    by (auto simp: rv_dispatch_def n_def split: option.splits)
  from n op(1) have "Some op \<in> set opcodes"
    by (metis nth_mem)
  from opcodes_cycle [OF this op(2)] c1 show ?thesis by simp
qed


subsection \<open>The run loop\<close>

text \<open>
  \<^verbatim>\<open>while (rv->csr_cycle < cycles_target && !rv->exception)\<close>: a handler that returns
  false leaves the loop through \<^verbatim>\<open>break\<close>, before \<^verbatim>\<open>rv->csr_cycle++\<close>; a failed
  assertion is \<open>None\<close>.
\<close>

function rv_step_loop :: "host_float_t \<Rightarrow> u64 \<Rightarrow> 'h riscv_t \<Rightarrow> 'h riscv_t option" where
  "rv_step_loop fp cycles_target rv =
     (if csr_cycle rv < cycles_target \<and> exception rv = rv_except_none then
        (case rv_dispatch fp rv of
           None \<Rightarrow> None
         | Some (ok, rv1) \<Rightarrow>
             if \<not> ok then Some rv1
             else rv_step_loop fp cycles_target (rv1\<lparr>csr_cycle := csr_cycle rv1 + 1\<rparr>))
      else Some rv)"
  by pat_completeness auto
termination
proof (relation "measure (\<lambda>(fp, cycles_target, rv). unat cycles_target - unat (csr_cycle rv))")
  show "wf (measure (\<lambda>(fp, cycles_target, rv). unat cycles_target - unat (csr_cycle rv)))" by simp
next
  fix fp :: host_float_t and cycles_target :: u64 and rv :: "'h riscv_t" and x2 x y
  assume lt: "csr_cycle rv < cycles_target \<and> exception rv = rv_except_none"
    and d: "rv_dispatch fp rv = Some x2" and xy: "(x, y) = x2" and ok: "\<not> \<not> x"
  from d xy have c: "csr_cycle y = csr_cycle rv"
    using rv_dispatch_cycle [of fp rv x y] by simp
  from lt have l: "unat (csr_cycle rv) < unat cycles_target" by (simp add: word_less_nat_alt)
  have "unat cycles_target < 2 ^ 64"
    using unsigned_less [of cycles_target, where 'a = nat] by simp
  with l have "unat (csr_cycle rv + 1) = unat (csr_cycle rv) + 1"
    by (simp add: unat_word_ariths)
  with l show "((fp, cycles_target, y\<lparr>csr_cycle := csr_cycle y + 1\<rparr>), fp, cycles_target, rv)
      \<in> measure (\<lambda>(fp, cycles_target, rv). unat cycles_target - unat (csr_cycle rv))"
    using c by simp
qed

declare rv_step_loop.simps [simp del]

text \<open>\<^verbatim>\<open>cycles\<close> is an \<^verbatim>\<open>int32_t\<close>; the sum with the 64-bit counter converts it with
  sign extension.\<close>

definition rv_step :: "host_float_t \<Rightarrow> 'h riscv_t \<Rightarrow> u32 \<Rightarrow> 'h riscv_t option" where
  "rv_step fp rv cycles =
     (let cycles_start = csr_cycle rv;
          cycles_target = csr_cycle rv + scast cycles
      in rv_step_loop fp cycles_target rv)"

subsection \<open>Reset and creation\<close>

text \<open>
  \<^verbatim>\<open>DEFAULT_STACK_ADDR\<close> is a macro of the private header; \<^verbatim>\<open>rv_reset\<close> takes its value
  as a parameter. The two \<^verbatim>\<open>memset\<close> calls clear the \<^verbatim>\<open>RV_NUM_REGS\<close> entries of each
  register file.
\<close>

definition rv_reset :: "u32 \<Rightarrow> 'h riscv_t \<Rightarrow> u32 \<Rightarrow> 'h riscv_t" where
  "rv_reset DEFAULT_STACK_ADDR rv pc =
     (let rv1 = rv\<lparr>X := (\<lambda>i. if i < RV_NUM_REGS then 0 else X rv i)\<rparr>;
          rv2 = rv1\<lparr>PC := pc\<rparr>;
          rv3 = set_X rv2 rv_reg_sp DEFAULT_STACK_ADDR;
          rv4 = rv3\<lparr>exception := rv_except_none\<rparr>;
          rv5 = rv4\<lparr>csr_cycle := 0\<rparr>;
          rv6 = rv5\<lparr>csr_mstatus := 0\<rparr>;
          rv7 = rv6\<lparr>F := (\<lambda>i. if i < RV_NUM_REGS then 0 else F rv6 i)\<rparr>
      in rv7\<lparr>csr_fcsr := 0\<rparr>)"

text \<open>\<^verbatim>\<open>rv_create\<close>: a zeroed hart with the I/O record and the user data copied in, then
  reset at PC 0. The history of callbacks starts empty.\<close>

definition rv_create :: "u32 \<Rightarrow> 'h riscv_io_t \<Rightarrow> 'h \<Rightarrow> 'h riscv_t" where
  "rv_create DEFAULT_STACK_ADDR io0 userdata0 =
     rv_reset DEFAULT_STACK_ADDR
       \<lparr>io = io0, X = (\<lambda>i. 0), PC = 0, F = (\<lambda>i. 0), csr_cycle = 0, csr_mstatus = 0,
        csr_fcsr = 0, exception = rv_except_none, userdata = userdata0, trace = []\<rparr>
       0"

subsection \<open>A host for the closed examples\<close>

text \<open>
  The examples run the handlers on a hart created over a small host: its state is a
  memory of one 32-bit cell per address, a narrower access reads or writes the low bits
  of the cell, and the trap hooks do nothing.
\<close>

definition example_io :: "(u32 \<Rightarrow> u32) riscv_io_t" where
  "example_io =
     \<lparr>mem_ifetch = (\<lambda>m a. m a),
      mem_read_w = (\<lambda>m a. m a),
      mem_read_s = (\<lambda>m a. ucast (m a)),
      mem_read_b = (\<lambda>m a. ucast (m a)),
      mem_write_w = (\<lambda>m a v. m(a := v)),
      mem_write_s = (\<lambda>m a v. m(a := ucast v)),
      mem_write_b = (\<lambda>m a v. m(a := ucast v)),
      on_ecall = (\<lambda>m pc inst. m),
      on_ebreak = (\<lambda>m pc inst. m)\<rparr>"

definition example_hart :: "(u32 \<Rightarrow> u32) riscv_t" where
  "example_hart = rv_create 0xfffff000 example_io (\<lambda>a. 0)"

definition example_float :: host_float_t where
  "example_float =
     \<lparr>f_add = (\<lambda>a b. 0), f_sub = (\<lambda>a b. 0), f_mul = (\<lambda>a b. 0), f_div = (\<lambda>a b. 0),
      f_neg = (\<lambda>a. 0), f_sqrt = (\<lambda>a. 0), f_min = (\<lambda>a b. 0), f_max = (\<lambda>a b. 0),
      f_to_int32 = (\<lambda>a. 0), f_to_uint32 = (\<lambda>a. 0), f_of_int32 = (\<lambda>a. 0),
      f_of_uint32 = (\<lambda>a. 0), f_eq = (\<lambda>a b. False), f_lt = (\<lambda>a b. False),
      f_le = (\<lambda>a b. False)\<rparr>"

text \<open>A hart reset to PC \<^verbatim>\<open>0x1000\<close>, where the memory holds \<^verbatim>\<open>BEQ x0, x0, +8\<close>.\<close>

definition branch_example_hart :: "(u32 \<Rightarrow> u32) riscv_t" where
  "branch_example_hart =
     (rv_reset 0xfffff000 example_hart 0x1000)\<lparr>userdata := (\<lambda>a. 0)(0x1000 := 0x00000463)\<rparr>"

text \<open>A hart with \<open>X[1] = 0x100\<close> and \<open>X[2] = 0xDEADBEEF\<close>, over a memory that holds
  \<^verbatim>\<open>0x11111111\<close> at address 1 and \<^verbatim>\<open>0x22222222\<close> at address \<^verbatim>\<open>0x100\<close>.\<close>

definition amo_example_hart :: "(u32 \<Rightarrow> u32) riscv_t" where
  "amo_example_hart =
     example_hart\<lparr>X := (X example_hart)(1 := 0x100, 2 := 0xDEADBEEF),
                   userdata := (\<lambda>a. 0)(0x1 := 0x11111111, 0x100 := 0x22222222)\<rparr>"

text \<open>A hart with \<open>X[1] = a\<close> and \<open>X[2] = b\<close>, the operands of the division examples.\<close>

definition div_example_hart :: "u32 \<Rightarrow> u32 \<Rightarrow> (u32 \<Rightarrow> u32) riscv_t" where
  "div_example_hart a b = example_hart\<lparr>X := (X example_hart)(1 := a, 2 := b)\<rparr>"

subsection \<open>Truncating division, as the specification words it\<close>

text \<open>
  The quotient of two integers truncated toward zero: its magnitude is that of the
  quotient of the magnitudes, rounded down, and its sign the product of the signs. The
  remainder that goes with it is the dividend minus the divisor times this quotient.
\<close>

definition trunc_quotient :: "int \<Rightarrow> int \<Rightarrow> int" where
  "trunc_quotient k l = sgn k * sgn l * (\<bar>k\<bar> div \<bar>l\<bar>)"

section \<open>Properties\<close>

text \<open>The fields of the example hart, as \<^verbatim>\<open>rv_create\<close> leaves them.\<close>

lemma example_hart_simps:
  "trace example_hart = []" "PC example_hart = 0" "exception example_hart = rv_except_none"
  "csr_cycle example_hart = 0" "io example_hart = example_io" "userdata example_hart = (\<lambda>a. 0)"
  "X example_hart = (\<lambda>i. 0)(2 := 0xfffff000)"
  "F example_hart = (\<lambda>i. 0)" "csr_mstatus example_hart = 0" "csr_fcsr example_hart = 0"
  by (simp_all add: example_hart_def rv_create_def rv_reset_def Let_def set_X_def RV_NUM_REGS_def
      rv_reg_sp_def fun_eq_iff)


subsection \<open>FCLASS.S\<close>

text \<open>
  Claim C5 says that \<^verbatim>\<open>calc_fclass\<close> sets exactly the one correct bit of the ten-bit
  class mask for every 32-bit pattern, and that every normal number (exponent field 1 to
  254) sets bit 1 or bit 6. The code compares the masked exponent with \<^verbatim>\<open>0x78000000\<close>
  instead of \<^verbatim>\<open>0x7f800000\<close>: the pattern \<^verbatim>\<open>0x78000000\<close> (sign 0, exponent field 240,
  fraction 0, the positive normal number \<open>2 ^ 113\<close>) gets the empty mask, where the claim
  requires bit 6 (\<^verbatim>\<open>0x040\<close>).
\<close>

theorem calc_fclass_large_normal: "calc_fclass 0x78000000 = 0"
  by (simp add: calc_fclass_def FMASK_SIGN_def FMASK_EXPN_def FMASK_FRAC_def)

text \<open>The same holds for every pattern whose exponent field is between 240 and 254: it
  gets no class bit at all.\<close>

lemma calc_fclass_large_exponent:
  assumes "0x78000000 \<le> f AND FMASK_EXPN" "f AND FMASK_EXPN < 0x7f800000"
  shows "calc_fclass f = 0"
proof -
  have "f \<noteq> 0xff800000" "f \<noteq> 0x80000000" "f \<noteq> 0" "f \<noteq> 0x7f800000"
    using assms by (auto simp: FMASK_EXPN_def)
  moreover have "f AND FMASK_EXPN \<noteq> 0" "\<not> f AND FMASK_EXPN < 0x78000000"
    "f AND FMASK_EXPN \<noteq> FMASK_EXPN"
    using assms by (auto simp: FMASK_EXPN_def)
  ultimately show ?thesis
    by (simp add: calc_fclass_def Let_def)
qed

text \<open>A NaN (exponent field 255, fraction not zero) sets one of the two NaN bits and no
  other bit.\<close>

lemma le_0x7ff_iff: "(x :: u32) \<le> 0x7ff \<longleftrightarrow> \<not> 0x800 \<le> x"
  by (auto simp: word_le_nat_alt)

lemma calc_fclass_nan_no_finite_bit:
  assumes "f AND FMASK_EXPN = FMASK_EXPN" "f AND FMASK_FRAC \<noteq> 0"
  shows "calc_fclass f = 0x100 \<or> calc_fclass f = 0x200"
proof -
  have "f \<noteq> 0xff800000" "f \<noteq> 0x80000000" "f \<noteq> 0" "f \<noteq> 0x7f800000"
    using assms by (auto simp: FMASK_EXPN_def FMASK_FRAC_def)
  moreover have "f AND FMASK_EXPN \<noteq> 0" "\<not> f AND FMASK_EXPN < 0x78000000"
    using assms by (auto simp: FMASK_EXPN_def)
  ultimately show ?thesis
    using assms by (auto simp: calc_fclass_def Let_def le_0x7ff_iff)
qed

subsection \<open>Reset\<close>

text \<open>
  Claim C8: for every hart and every value \<open>p\<close>, \<^verbatim>\<open>rv_reset(rv, p)\<close> leaves
  \<open>PC = p\<close>, every register \<open>X[i]\<close> of the 32 at zero except \<open>X[sp]\<close>, which holds the
  default stack top, \<open>csr_cycle = 0\<close> and the exception latch at none.
\<close>

theorem rv_reset_post:
  "PC (rv_reset stack rv p) = p
   \<and> (\<forall>i. i < RV_NUM_REGS \<and> i \<noteq> rv_reg_sp \<longrightarrow> X (rv_reset stack rv p) i = 0)
   \<and> X (rv_reset stack rv p) rv_reg_sp = stack
   \<and> csr_cycle (rv_reset stack rv p) = 0
   \<and> exception (rv_reset stack rv p) = rv_except_none"
  by (simp add: rv_reset_def Let_def set_X_def)

text \<open>The reset of a hart whose registers all hold 7, with a latched exception and a
  cycle count of 99.\<close>

theorem rv_reset_post_witness:
  "PC (rv_reset 0xfffff000 (example_hart\<lparr>X := (\<lambda>i. 7), PC := 3, csr_cycle := 99,
        exception := rv_except_inst_misaligned\<rparr>) 0x1000) = 0x1000
   \<and> (5 :: u32) < RV_NUM_REGS \<and> (5 :: u32) \<noteq> rv_reg_sp
   \<and> X (rv_reset 0xfffff000 (example_hart\<lparr>X := (\<lambda>i. 7), PC := 3, csr_cycle := 99,
        exception := rv_except_inst_misaligned\<rparr>) 0x1000) 5 = 0
   \<and> X (rv_reset 0xfffff000 (example_hart\<lparr>X := (\<lambda>i. 7), PC := 3, csr_cycle := 99,
        exception := rv_except_inst_misaligned\<rparr>) 0x1000) 2 = 0xfffff000"
  using rv_reset_post [of "0xfffff000" "example_hart\<lparr>X := (\<lambda>i. 7), PC := 3, csr_cycle := 99,
        exception := rv_except_inst_misaligned\<rparr>" "0x1000"]
  by (simp add: RV_NUM_REGS_def rv_reg_sp_def)

subsection \<open>JALR\<close>

text \<open>
  Claim C9: for a JALR whose \<open>rd\<close> is its \<open>rs1\<close>, the new PC is \<open>(X[rs1] + imm)\<close> with
  the low bit cleared, taken from the value \<open>X[rs1]\<close> had before the instruction; the link
  value, the old PC plus 4, is written to \<open>X[rd]\<close> afterwards and does not change the
  target.
\<close>

theorem op_jalr_target_before_link:
  assumes "dec_rd inst = dec_rs1 inst"
  shows "\<exists>rv'. op_jalr rv inst = Some (False, rv')
           \<and> PC rv' = (X rv (dec_rs1 inst) + dec_itype_imm inst) AND NOT 1
           \<and> (dec_rd inst \<noteq> 0 \<longrightarrow> X rv' (dec_rd inst) = PC rv + 4)"
  by (simp add: op_jalr_def Let_def set_X_def raise_exception_def rv_reg_zero_def)

text \<open>\<^verbatim>\<open>JALR x1, 4(x1)\<close> at PC \<^verbatim>\<open>0x1000\<close> with \<open>X[1] = 0x2000\<close>: the PC becomes
  \<^verbatim>\<open>0x2004\<close> and \<open>X[1]\<close> the link \<^verbatim>\<open>0x1004\<close>.\<close>

theorem op_jalr_target_before_link_witness:
  "dec_rd 0x004080E7 = dec_rs1 0x004080E7 \<and> dec_rd 0x004080E7 \<noteq> 0
   \<and> (\<exists>rv'. op_jalr (example_hart\<lparr>X := (X example_hart)(1 := 0x2000), PC := 0x1000\<rparr>) 0x004080E7
              = Some (False, rv')
          \<and> PC rv' = 0x2004 \<and> X rv' 1 = 0x1004)"
proof -
  have d: "dec_rd 0x004080E7 = 1" "dec_rs1 0x004080E7 = 1" "dec_itype_imm 0x004080E7 = 4"
    by (simp_all add: dec_rd_def dec_rs1_def dec_itype_imm_def)
  then have h: "dec_rd 0x004080E7 = dec_rs1 0x004080E7" by simp
  show ?thesis
    using op_jalr_target_before_link
      [OF h, of "example_hart\<lparr>X := (X example_hart)(1 := 0x2000), PC := 0x1000\<rparr>"]
    by (auto simp: d)
qed

subsection \<open>STORE\<close>

text \<open>
  Claim C10: a STORE leaves the integer registers, the F registers, \<open>csr_cycle\<close>,
  \<open>csr_mstatus\<close> and the exception latch as they were; it makes exactly one call of a
  memory-write callback, the byte, half-word or word write that funct3 selects, at address
  \<open>X[rs1] + imm\<close> with the low bits of \<open>X[rs2]\<close>, and advances the PC by 4.
\<close>

theorem op_store_frame:
  assumes "op_store rv inst = Some (ok, rv')"
  shows "ok \<and> X rv' = X rv \<and> F rv' = F rv \<and> csr_cycle rv' = csr_cycle rv
     \<and> csr_mstatus rv' = csr_mstatus rv \<and> csr_fcsr rv' = csr_fcsr rv
     \<and> exception rv' = exception rv \<and> io rv' = io rv
     \<and> PC rv' = PC rv + 4
     \<and> (dec_funct3 inst = 0
          \<and> trace rv' = trace rv @ [Io_write_b (X rv (dec_rs1 inst) + dec_stype_imm inst)
                                                (ucast (X rv (dec_rs2 inst)))]
          \<and> userdata rv' = mem_write_b (io rv) (userdata rv)
                (X rv (dec_rs1 inst) + dec_stype_imm inst) (ucast (X rv (dec_rs2 inst)))
        \<or> dec_funct3 inst = 1
          \<and> trace rv' = trace rv @ [Io_write_s (X rv (dec_rs1 inst) + dec_stype_imm inst)
                                                (ucast (X rv (dec_rs2 inst)))]
          \<and> userdata rv' = mem_write_s (io rv) (userdata rv)
                (X rv (dec_rs1 inst) + dec_stype_imm inst) (ucast (X rv (dec_rs2 inst)))
        \<or> dec_funct3 inst = 2
          \<and> trace rv' = trace rv @ [Io_write_w (X rv (dec_rs1 inst) + dec_stype_imm inst)
                                                (X rv (dec_rs2 inst))]
          \<and> userdata rv' = mem_write_w (io rv) (userdata rv)
                (X rv (dec_rs1 inst) + dec_stype_imm inst) (X rv (dec_rs2 inst)))"
  using assms
  by (auto simp: op_store_def Let_def step_over_def io_mem_write_b_def io_mem_write_s_def
      io_mem_write_w_def split: if_splits)

text \<open>\<^verbatim>\<open>SW x2, 8(x1)\<close> with \<open>X[1] = 0x100\<close> and \<open>X[2] = 0xDEADBEEF\<close>.\<close>

lemma sw_fields:
  "dec_funct3 0x0020A423 = 2" "dec_rs1 0x0020A423 = 1" "dec_rs2 0x0020A423 = 2"
  "dec_stype_imm 0x0020A423 = 8"
  by (simp_all add: dec_funct3_def dec_rs1_def dec_rs2_def dec_stype_imm_def)

theorem op_store_frame_witness:
  "\<exists>ok rv'. op_store (example_hart\<lparr>X := (X example_hart)(1 := 0x100, 2 := 0xDEADBEEF),
                 PC := 0x1000\<rparr>) 0x0020A423 = Some (ok, rv')
     \<and> ok \<and> X rv' = (X example_hart)(1 := 0x100, 2 := 0xDEADBEEF) \<and> PC rv' = 0x1004
     \<and> exception rv' = rv_except_none
     \<and> trace rv' = [Io_write_w 0x108 0xDEADBEEF]"
proof -
  let ?rv = "example_hart\<lparr>X := (X example_hart)(1 := 0x100, 2 := 0xDEADBEEF), PC := 0x1000\<rparr>"
  have "op_store ?rv 0x0020A423 \<noteq> None"
    by (simp add: op_store_def Let_def sw_fields step_over_def)
  then obtain ok rv' where e: "op_store ?rv 0x0020A423 = Some (ok, rv')"
    by auto
  from op_store_frame [OF e] have "ok \<and> X rv' = (X example_hart)(1 := 0x100, 2 := 0xDEADBEEF)
     \<and> PC rv' = 0x1004 \<and> exception rv' = rv_except_none
     \<and> trace rv' = [Io_write_w 0x108 0xDEADBEEF]"
    by (simp add: sw_fields example_hart_simps)
  with e show ?thesis by blast
qed

subsection \<open>BRANCH\<close>

text \<open>
  Claim C7: when a branch is taken and the new PC, the old PC plus the B-type immediate,
  has one of its low two bits set, the exception latch becomes instruction-misaligned;
  when the branch is not taken, the PC advances by 4 and the latch keeps its value.
\<close>

theorem op_branch_misaligned:
  assumes "op_branch rv inst = Some (ok, rv')"
  shows "\<exists>taken. branch_taken rv inst = Some taken
     \<and> (taken \<and> (PC rv + dec_btype_imm inst) AND 0x3 \<noteq> 0
          \<longrightarrow> exception rv' = rv_except_inst_misaligned)
     \<and> (taken \<longrightarrow> PC rv' = PC rv + dec_btype_imm inst)
     \<and> (\<not> taken \<longrightarrow> PC rv' = PC rv + 4 \<and> exception rv' = exception rv)"
  using assms
  by (auto simp: op_branch_def Let_def raise_exception_def split: option.splits if_splits)

text \<open>\<^verbatim>\<open>BEQ x0, x0, +6\<close> at PC \<^verbatim>\<open>0x1000\<close> is taken to the misaligned \<^verbatim>\<open>0x1006\<close>;
  \<^verbatim>\<open>BNE x0, x0, +6\<close> is not taken.\<close>

lemma beq_fields:
  "dec_funct3 0x00000363 = 0" "dec_rs1 0x00000363 = 0" "dec_rs2 0x00000363 = 0"
  "dec_btype_imm 0x00000363 = 6"
  "dec_funct3 0x00001363 = 1" "dec_rs1 0x00001363 = 0" "dec_rs2 0x00001363 = 0"
  "dec_btype_imm 0x00001363 = 6"
  by (simp_all add: dec_funct3_def dec_rs1_def dec_rs2_def dec_btype_imm_def)

theorem op_branch_misaligned_witness:
  "(\<exists>ok rv'. op_branch (example_hart\<lparr>PC := 0x1000\<rparr>) 0x00000363 = Some (ok, rv')
      \<and> branch_taken (example_hart\<lparr>PC := 0x1000\<rparr>) 0x00000363 = Some True
      \<and> (0x1000 + dec_btype_imm 0x00000363) AND 0x3 \<noteq> 0
      \<and> PC rv' = 0x1006 \<and> exception rv' = rv_except_inst_misaligned)
   \<and> (\<exists>ok rv'. op_branch (example_hart\<lparr>PC := 0x1000\<rparr>) 0x00001363 = Some (ok, rv')
      \<and> branch_taken (example_hart\<lparr>PC := 0x1000\<rparr>) 0x00001363 = Some False
      \<and> PC rv' = 0x1004 \<and> exception rv' = rv_except_none)"
proof -
  let ?rv = "example_hart\<lparr>PC := 0x1000\<rparr>"
  have t1: "branch_taken ?rv 0x00000363 = Some True"
    and t2: "branch_taken ?rv 0x00001363 = Some False"
    by (simp_all add: branch_taken_def Let_def beq_fields)
  then have "op_branch ?rv 0x00000363 \<noteq> None" "op_branch ?rv 0x00001363 \<noteq> None"
    by (simp_all add: op_branch_def Let_def)
  then obtain ok1 rv1 ok2 rv2 where
    e1: "op_branch ?rv 0x00000363 = Some (ok1, rv1)" and
    e2: "op_branch ?rv 0x00001363 = Some (ok2, rv2)"
    by auto
  from op_branch_misaligned [OF e1] have "PC rv1 = 0x1006 \<and> exception rv1 = rv_except_inst_misaligned"
    by (auto simp: t1 beq_fields)
  moreover from op_branch_misaligned [OF e2] have "PC rv2 = 0x1004 \<and> exception rv2 = rv_except_none"
    by (auto simp: t2 example_hart_simps)
  moreover have "(0x1000 + dec_btype_imm 0x00000363) AND 0x3 \<noteq> (0 :: u32)"
    by (simp add: beq_fields)
  ultimately show ?thesis using e1 e2 t1 t2 by blast
qed

subsection \<open>The zero register\<close>

text \<open>The integer handlers that write \<^verbatim>\<open>rd\<close> end with the zero-register check: after
  any of them, an instruction with \<open>rd = 0\<close> leaves \<open>X[0] = 0\<close>.\<close>

lemma step_over_zero_X0:
  "step_over_zero 0 rv = Some (ok, rv') \<Longrightarrow> X rv' 0 = 0"
  by (auto simp: step_over_zero_def Let_def set_X_def rv_reg_zero_def)

lemma integer_handlers_X0:
  assumes "dec_rd inst = 0"
  shows "op_load rv inst = Some (ok, rv') \<Longrightarrow> X rv' 0 = 0"
    and "op_op_imm rv inst = Some (ok, rv') \<Longrightarrow> X rv' 0 = 0"
    and "op_auipc rv inst = Some (ok, rv') \<Longrightarrow> X rv' 0 = 0"
    and "op_op rv inst = Some (ok, rv') \<Longrightarrow> X rv' 0 = 0"
    and "op_lui rv inst = Some (ok, rv') \<Longrightarrow> X rv' 0 = 0"
    and "op_system rv inst = Some (ok, rv') \<Longrightarrow> X rv' 0 = 0"
    and "op_amo rv inst = Some (ok, rv') \<Longrightarrow> X rv' 0 = 0"
  unfolding op_load_def op_op_imm_def op_auipc_def op_op_def op_lui_def op_system_def
    op_amo_def Let_def assms
  by (auto split: option.splits dest: step_over_zero_X0)

text \<open>\<^verbatim>\<open>op_fp\<close> does not: \<^verbatim>\<open>FMV.X.W\<close> with \<open>rd = 0\<close> copies the bits of \<open>F[rs1]\<close>
  into \<open>X[0]\<close>.\<close>

lemma op_fp_writes_x0:
  assumes "dec_rd inst = 0" "dec_funct7 inst = 0x70" "dec_funct3 inst = 0"
  shows "op_fp fp rv inst = Some (True, rv\<lparr>X := (X rv)(0 := F rv (dec_rs1 inst)), PC := PC rv + 4\<rparr>)"
  using assms by (simp add: op_fp_def Let_def set_X_def step_over_def)

text \<open>The fields of \<^verbatim>\<open>FCLASS.S x0, f0\<close>, and the class of \<open>+0\<close>.\<close>

lemma fclass_fields:
  "dec_funct7 0xE0001053 = 0x70" "dec_rd 0xE0001053 = 0" "dec_rs1 0xE0001053 = 0"
  "dec_rs2 0xE0001053 = 0" "dec_funct3 0xE0001053 = 1"
  by (simp_all add: dec_funct7_def dec_rd_def dec_rs1_def dec_rs2_def dec_funct3_def)

lemma calc_fclass_zero: "calc_fclass 0 = 0x10"
  by (simp add: calc_fclass_def FMASK_SIGN_def FMASK_EXPN_def FMASK_FRAC_def)

text \<open>
  Claim C1 says that every instruction that writes \<open>rd\<close> leaves \<open>X[0] = 0\<close> when
  \<open>rd = 0\<close>, the F-extension instructions that write an integer register included.
  \<^verbatim>\<open>op_fp\<close> has no zero-register check. \<^verbatim>\<open>FCLASS.S x0, f0\<close> (\<^verbatim>\<open>0xE0001053\<close>) on a
  freshly created hart, where \<open>F[0]\<close> is \<open>+0\<close>, leaves the class mask \<^verbatim>\<open>0x10\<close> in
  \<open>X[0]\<close>.
\<close>

theorem op_fp_fclass_x0:
  "op_fp fp example_hart 0xE0001053
     = Some (True, example_hart\<lparr>X := (X example_hart)(0 := 0x10), PC := 4\<rparr>)"
  by (simp add: op_fp_def Let_def fclass_fields example_hart_simps set_X_def step_over_def
      calc_fclass_zero)

subsection \<open>AMO\<close>

text \<open>Every AMO case (any funct5 but those of \<^verbatim>\<open>LR.W\<close> and \<^verbatim>\<open>SC.W\<close>) calls the word
  read and then the half-word write, both with the register index \<^verbatim>\<open>rs1\<close> as the
  address.\<close>

lemma op_amo_callbacks:
  assumes "op_amo rv inst = Some (ok, rv')"
    and "drop_bit 2 (dec_funct7 inst) AND 0x1f \<notin> {0x02, 0x03}"
  shows "\<exists>v. trace rv' = trace rv @ [Io_read_w (dec_rs1 inst), Io_write_s (dec_rs1 inst) v]"
  using assms
  by (auto simp: op_amo_def Let_def io_mem_read_w_def io_mem_write_s_def set_X_def
      step_over_zero_def split: if_splits)

text \<open>The fields of \<^verbatim>\<open>AMOSWAP.W x3, x2, (x1)\<close>.\<close>

lemma amoswap_fields:
  "dec_funct7 0x0820A1AF = 4" "dec_rd 0x0820A1AF = 3" "dec_rs1 0x0820A1AF = 1"
  "dec_rs2 0x0820A1AF = 2"
  by (simp_all add: dec_funct7_def dec_rd_def dec_rs1_def dec_rs2_def)

text \<open>
  Claim C4 says that every AMO reads and writes back at address \<open>X[rs1]\<close>, writes back
  through \<^verbatim>\<open>mem_write_w\<close>, and leaves the old memory value in \<open>rd\<close>. The AMO cases
  pass the register index \<^verbatim>\<open>rs1\<close> as the address and call \<^verbatim>\<open>mem_write_s\<close>.
  \<^verbatim>\<open>AMOSWAP.W x3, x2, (x1)\<close> (\<^verbatim>\<open>0x0820A1AF\<close>) with \<open>X[1] = 0x100\<close> and
  \<open>X[2] = 0xDEADBEEF\<close> reads the word at address 1, not \<^verbatim>\<open>0x100\<close>, into \<open>X[3]\<close>, and
  writes the half-word \<^verbatim>\<open>0xBEEF\<close> to address 1.
\<close>

theorem op_amo_amoswap_example:
  "op_amo amo_example_hart 0x0820A1AF
     = Some (True, amo_example_hart
          \<lparr>X := (X amo_example_hart)(3 := 0x11111111),
           PC := 4,
           userdata := (userdata amo_example_hart)(0x1 := 0xBEEF),
           trace := [Io_read_w 0x1, Io_write_s 0x1 0xBEEF]\<rparr>)
   \<and> X amo_example_hart 1 = 0x100
   \<and> userdata amo_example_hart 0x100 = 0x22222222"
  by (simp add: op_amo_def Let_def amoswap_fields amo_example_hart_def example_hart_simps
      io_mem_read_w_def io_mem_write_s_def set_X_def step_over_zero_def rv_reg_zero_def
      example_io_def)

subsection \<open>The run loop\<close>

text \<open>Only \<^verbatim>\<open>op_branch\<close>, \<^verbatim>\<open>op_jalr\<close> and \<^verbatim>\<open>op_jal\<close>, in slots 24, 25 and 27 of the
  table, return false.\<close>

lemma step_over_zero_ok: "step_over_zero rd rv = Some (ok, rv') \<Longrightarrow> ok"
  by (auto simp: step_over_zero_def Let_def)

lemma step_over_ok: "step_over rv = Some (ok, rv') \<Longrightarrow> ok"
  by (auto simp: step_over_def)

lemma sequential_handlers_ok:
  "op_load rv inst = Some (ok, rv') \<Longrightarrow> ok"
  "op_load_fp rv inst = Some (ok, rv') \<Longrightarrow> ok"
  "op_misc_mem rv inst = Some (ok, rv') \<Longrightarrow> ok"
  "op_op_imm rv inst = Some (ok, rv') \<Longrightarrow> ok"
  "op_auipc rv inst = Some (ok, rv') \<Longrightarrow> ok"
  "op_store rv inst = Some (ok, rv') \<Longrightarrow> ok"
  "op_store_fp rv inst = Some (ok, rv') \<Longrightarrow> ok"
  "op_amo rv inst = Some (ok, rv') \<Longrightarrow> ok"
  "op_op rv inst = Some (ok, rv') \<Longrightarrow> ok"
  "op_lui rv inst = Some (ok, rv') \<Longrightarrow> ok"
  "op_madd fp rv inst = Some (ok, rv') \<Longrightarrow> ok"
  "op_msub fp rv inst = Some (ok, rv') \<Longrightarrow> ok"
  "op_nmsub fp rv inst = Some (ok, rv') \<Longrightarrow> ok"
  "op_nmadd fp rv inst = Some (ok, rv') \<Longrightarrow> ok"
  "op_fp fp rv inst = Some (ok, rv') \<Longrightarrow> ok"
  "op_system rv inst = Some (ok, rv') \<Longrightarrow> ok"
  unfolding op_load_def op_load_fp_def op_misc_mem_def op_op_imm_def op_auipc_def op_store_def
    op_store_fp_def op_amo_def op_op_def op_lui_def op_madd_def op_msub_def op_nmsub_def
    op_nmadd_def op_fp_def op_system_def Let_def
  by (auto split: option.splits prod.splits dest: step_over_zero_ok step_over_ok)

lemma opcodes_false_slot:
  assumes "n < 32" "opcodes ! n = Some op" "op fp rv inst = Some (False, rv')"
  shows "n \<in> {24, 25, 27}"
proof -
  from assms(1,2) have "(n, Some op) \<in> set (enumerate 0 opcodes)"
    by (simp add: in_set_enumerate_eq length_opcodes)
  with assms(3) show ?thesis
    by (auto simp: opcodes_def dest: sequential_handlers_ok)
qed

lemma rv_dispatch_false:
  assumes "rv_dispatch fp rv = Some (False, rv')"
  shows "unat (drop_bit 2 (mem_ifetch (io rv) (userdata rv) (PC rv) AND INST_6_2)) \<in> {24, 25, 27}"
proof -
  define inst where "inst = mem_ifetch (io rv) (userdata rv) (PC rv)"
  define n where "n = unat (drop_bit 2 (inst AND INST_6_2))"
  have n: "n < 32"
    unfolding n_def by (rule index_bound)
  from assms obtain op where "opcodes ! n = Some op"
    "op fp (rv\<lparr>trace := trace rv @ [Io_ifetch (PC rv)]\<rparr>) inst = Some (False, rv')"
    by (auto simp: rv_dispatch_def io_mem_ifetch_def n_def inst_def split: option.splits)
  from opcodes_false_slot [OF n this] show ?thesis
    by (simp add: n_def inst_def)
qed

text \<open>The loop returns with the budget used up, with a latched exception, or with the
  hart a handler that returned false has left.\<close>

lemma rv_step_loop_exit:
  "rv_step_loop fp target rv = Some rv' \<Longrightarrow>
     target \<le> csr_cycle rv' \<or> exception rv' \<noteq> rv_except_none
     \<or> (\<exists>rv1. csr_cycle rv1 < target \<and> exception rv1 = rv_except_none
            \<and> rv_dispatch fp rv1 = Some (False, rv'))"
proof (induction fp target rv rule: rv_step_loop.induct)
  case (1 fp target rv)
  show ?case
  proof (cases "csr_cycle rv < target \<and> exception rv = rv_except_none")
    case False
    with "1.prems" have "rv' = rv"
      by (subst (asm) rv_step_loop.simps) simp
    with False show ?thesis by auto
  next
    case True
    show ?thesis
    proof (cases "rv_dispatch fp rv")
      case None
      with True "1.prems" show ?thesis
        by (subst (asm) rv_step_loop.simps) simp
    next
      case (Some r)
      obtain ok rv1 where r: "r = (ok, rv1)" by (cases r)
      show ?thesis
      proof (cases ok)
        case False
        with True Some r "1.prems" have "rv' = rv1"
          by (subst (asm) rv_step_loop.simps) simp
        with Some r False have "rv_dispatch fp rv = Some (False, rv')" by simp
        with True have "\<exists>rv1. csr_cycle rv1 < target \<and> exception rv1 = rv_except_none
            \<and> rv_dispatch fp rv1 = Some (False, rv')"
          by (intro exI [of _ rv]) simp
        then show ?thesis by simp
      next
        case ok: True
        with True Some r "1.prems"
        have "rv_step_loop fp target (rv1\<lparr>csr_cycle := csr_cycle rv1 + 1\<rparr>) = Some rv'"
          by (subst (asm) rv_step_loop.simps) simp
        from "1.IH" [OF True Some r [symmetric] _ this] ok show ?thesis by simp
      qed
    qed
  qed
qed

text \<open>An instruction whose handler returns true is counted once.\<close>

lemma rv_step_loop_sequential:
  assumes "csr_cycle rv < target" "exception rv = rv_except_none"
    and "rv_dispatch fp rv = Some (True, rv1)"
  shows "rv_step_loop fp target rv
           = rv_step_loop fp target (rv1\<lparr>csr_cycle := csr_cycle rv1 + 1\<rparr>)"
  using assms by (subst rv_step_loop.simps) simp

text \<open>The taken branch of the example hart, dispatched and run through the loop.\<close>

lemma branch_example_hart_simps:
  "trace branch_example_hart = []" "PC branch_example_hart = 0x1000"
  "exception branch_example_hart = rv_except_none" "csr_cycle branch_example_hart = 0"
  "io branch_example_hart = example_io"
  "userdata branch_example_hart = (\<lambda>a. 0)(0x1000 := 0x00000463)"
  "X branch_example_hart = (\<lambda>i. 0)(2 := 0xfffff000)"
  by (simp_all add: branch_example_hart_def rv_reset_def Let_def set_X_def RV_NUM_REGS_def
      rv_reg_sp_def fun_eq_iff example_hart_simps)

lemma beq8_fields:
  "dec_funct3 0x00000463 = 0" "dec_rs1 0x00000463 = 0" "dec_rs2 0x00000463 = 0"
  "dec_btype_imm 0x00000463 = 8"
  by (simp_all add: dec_funct3_def dec_rs1_def dec_rs2_def dec_btype_imm_def)

lemma opcodes_24: "opcodes ! 24 = Some (\<lambda>fp. op_branch)"
  by (simp add: opcodes_def)

lemma branch_example_dispatch:
  "rv_dispatch fp branch_example_hart
     = Some (False, branch_example_hart\<lparr>PC := 0x1008, trace := [Io_ifetch 0x1000]\<rparr>)"
  by (simp add: rv_dispatch_def io_mem_ifetch_def branch_example_hart_simps example_io_def
      INST_6_2_def beq8_fields opcodes_24 op_branch_def branch_taken_def Let_def)

lemma branch_example_loop:
  "0 < target \<Longrightarrow> rv_step_loop fp target branch_example_hart
     = Some (branch_example_hart\<lparr>PC := 0x1008, trace := [Io_ifetch 0x1000]\<rparr>)"
  by (subst rv_step_loop.simps) (simp add: branch_example_hart_simps branch_example_dispatch)

text \<open>
  Claim C2 says that \<^verbatim>\<open>rv_step\<close> increments \<open>csr_cycle\<close> once per retired instruction,
  whether its handler returns true or false, so that a single taken branch raises
  \<open>csr_cycle\<close> by 1. The loop leaves through \<^verbatim>\<open>break\<close> when the handler returns false,
  before \<^verbatim>\<open>rv->csr_cycle++\<close>: after \<^verbatim>\<open>rv_step(rv, 1)\<close> on \<^verbatim>\<open>BEQ x0, x0, +8\<close> the branch
  has retired (the PC is \<^verbatim>\<open>0x1008\<close>) and \<open>csr_cycle\<close> is still 0.
\<close>

theorem rv_step_taken_branch_cycle:
  "rv_step example_float branch_example_hart 1
     = Some (branch_example_hart\<lparr>PC := 0x1008, trace := [Io_ifetch 0x1000]\<rparr>)
   \<and> map_option csr_cycle (rv_step example_float branch_example_hart 1) = Some 0
   \<and> csr_cycle branch_example_hart = 0"
  by (simp add: rv_step_def Let_def branch_example_loop branch_example_hart_simps)

text \<open>
  What the loop does: when \<^verbatim>\<open>rv_step\<close> returns, \<open>csr_cycle\<close> has reached its target, or
  the last instruction it ran was dispatched to \<^verbatim>\<open>op_branch\<close>, \<^verbatim>\<open>op_jalr\<close> or
  \<^verbatim>\<open>op_jal\<close> (slots 24, 25 and 27 of the table), whose handler returned false and left
  the loop through \<^verbatim>\<open>break\<close>, or the exception latch is set.
\<close>

lemma rv_step_returns:
  assumes "rv_step fp rv cycles = Some rv'"
  shows "csr_cycle rv + scast cycles \<le> csr_cycle rv'
     \<or> (\<exists>rv1. rv_dispatch fp rv1 = Some (False, rv')
            \<and> unat (drop_bit 2 (mem_ifetch (io rv1) (userdata rv1) (PC rv1) AND INST_6_2))
                 \<in> {24, 25, 27})
     \<or> exception rv' \<noteq> rv_except_none"
proof -
  from assms have "rv_step_loop fp (csr_cycle rv + scast cycles) rv = Some rv'"
    by (simp add: rv_step_def Let_def)
  from rv_step_loop_exit [OF this] show ?thesis
    using rv_dispatch_false [of fp _ rv'] by blast
qed

text \<open>The example hart with a budget of 10: the step ends on the taken branch.\<close>

lemma rv_step_returns_example:
  "rv_step example_float branch_example_hart 10
     = Some (branch_example_hart\<lparr>PC := 0x1008, trace := [Io_ifetch 0x1000]\<rparr>)
   \<and> (\<exists>rv1. rv_dispatch example_float rv1
              = Some (False, branch_example_hart\<lparr>PC := 0x1008, trace := [Io_ifetch 0x1000]\<rparr>)
          \<and> unat (drop_bit 2 (mem_ifetch (io rv1) (userdata rv1) (PC rv1) AND INST_6_2))
               \<in> {24, 25, 27})"
proof -
  have e: "rv_step example_float branch_example_hart 10
     = Some (branch_example_hart\<lparr>PC := 0x1008, trace := [Io_ifetch 0x1000]\<rparr>)"
    by (simp add: rv_step_def Let_def branch_example_loop branch_example_hart_simps)
  from rv_step_returns [OF e] show ?thesis
    by (simp add: e branch_example_hart_simps)
qed

text \<open>
  Claim C3 says that \<^verbatim>\<open>rv_step\<close> returns only when \<open>csr_cycle\<close> has reached its target
  or the exception latch is set. The interpreter's loop is the only loop of its
  \<^verbatim>\<open>rv_step\<close>, and \<^verbatim>\<open>if (!op(rv, inst)) break;\<close> leaves it: with a budget of 10
  cycles the example hart returns after its first instruction, the taken branch, with
  \<open>csr_cycle = 0\<close>, below the target of 10, and no exception. The \<^verbatim>\<open>rv_step\<close> of the
  JIT build, in the same file, has the same \<^verbatim>\<open>break\<close> in an inner loop and goes on in
  its outer loop, which ends on the budget or on an exception only.
\<close>

theorem rv_step_returns_early:
  "map_option csr_cycle (rv_step example_float branch_example_hart 10) = Some 0
   \<and> map_option exception (rv_step example_float branch_example_hart 10) = Some rv_except_none
   \<and> csr_cycle branch_example_hart + scast (10 :: u32) = 10"
  by (simp add: rv_step_def Let_def branch_example_loop branch_example_hart_simps)

subsection \<open>RV32M division and remainder\<close>

text \<open>Signed 32-bit values and the range of \<open>sdiv\<close> and \<open>smod\<close> on them.\<close>

lemma sint32_bounds: "- (2 ^ 31) \<le> sint (w :: u32)" "sint (w :: u32) < 2 ^ 31"
  using sint_ge [of w] sint_lt [of w] by simp_all

lemma sint_word_of_int_32:
  assumes "- (2 ^ 31) \<le> k" "k < 2 ^ 31"
  shows "sint (word_of_int k :: u32) = k"
  using assms by (simp add: sint_sbintrunc' signed_take_bit_int_eq_self)

lemma sint32_eq_iff: "sint (w :: u32) = k \<longleftrightarrow> w = word_of_int k \<and> - (2 ^ 31) \<le> k \<and> k < 2 ^ 31"
proof
  assume h: "sint w = k"
  then have "word_of_int (sint w) = (word_of_int k :: u32)" by simp
  then have "w = word_of_int k" by simp
  with h sint32_bounds [of w] show "w = word_of_int k \<and> - (2 ^ 31) \<le> k \<and> k < 2 ^ 31"
    by simp
next
  assume "w = word_of_int k \<and> - (2 ^ 31) \<le> k \<and> k < 2 ^ 31"
  then show "sint w = k" by (simp add: sint_word_of_int_32)
qed

lemma sint_eq_min: "sint (a :: u32) = - 2147483648 \<longleftrightarrow> a = 0x80000000"
proof -
  have h: "(- 2147483648 :: u32) = 2147483648" by simp
  have "sint a = - 2147483648 \<longleftrightarrow> a = - 2147483648" by (simp add: sint32_eq_iff)
  then show ?thesis unfolding h .
qed

lemma sint_eq_minus1: "sint (b :: u32) = - 1 \<longleftrightarrow> b = - 1"
  by (simp add: sint32_eq_iff)

lemma sint_eq_zero: "sint (b :: u32) = 0 \<longleftrightarrow> b = 0"
  by (simp add: sint32_eq_iff)

lemma sdiv32_in_range:
  fixes a b :: u32
  assumes "\<not> (b = - 1 \<and> a = 0x80000000)"
  shows "- (2 ^ 31) \<le> sint a sdiv sint b" "sint a sdiv sint b < 2 ^ 31"
proof -
  have r: "- \<bar>sint a\<bar> \<le> sint a sdiv sint b" "sint a sdiv sint b \<le> \<bar>sint a\<bar>"
    using sdiv_int_range [of "sint a" "sint b"] by simp_all
  have abs: "\<bar>sint a\<bar> \<le> 2 ^ 31"
    using sint32_bounds [of a] by (simp add: abs_le_iff)
  from r(1) abs show "- (2 ^ 31) \<le> sint a sdiv sint b" by simp
  show "sint a sdiv sint b < 2 ^ 31"
  proof (cases "sint a = - 2147483648")
    case False
    with sint32_bounds [of a] have "\<bar>sint a\<bar> < 2 ^ 31" by (simp add: abs_less_iff)
    with r(2) show ?thesis by simp
  next
    case True
    then have a: "a = 0x80000000" by (simp add: sint_eq_min)
    with assms have "b \<noteq> - 1" by simp
    then have "sint b \<noteq> - 1" by (simp add: sint_eq_minus1)
    moreover from True have "sint a \<noteq> 0" by simp
    ultimately have "sint a sdiv sint b \<noteq> - sint a"
      by simp
    with r(2) True show ?thesis by simp
  qed
qed

lemma smod32_in_range:
  fixes a b :: u32
  assumes "b \<noteq> 0"
  shows "- (2 ^ 31) \<le> sint a smod sint b" "sint a smod sint b < 2 ^ 31"
    and "\<bar>sint a smod sint b\<bar> < \<bar>sint b\<bar>"
proof -
  from assms have nz: "sint b \<noteq> 0" by (simp add: sint_eq_zero)
  have abs: "\<bar>sint b\<bar> \<le> 2 ^ 31"
    using sint32_bounds [of b] by (simp add: abs_le_iff)
  from smod_int_range [OF nz, of "sint a"]
  have r: "- \<bar>sint b\<bar> + 1 \<le> sint a smod sint b" "sint a smod sint b \<le> \<bar>sint b\<bar> - 1"
    by simp_all
  with abs show "- (2 ^ 31) \<le> sint a smod sint b" "sint a smod sint b < 2 ^ 31"
    by simp_all
  from r show "\<bar>sint a smod sint b\<bar> < \<bar>sint b\<bar>" by (simp add: abs_less_iff)
qed

lemma smod_sign:
  fixes k l :: int
  shows "0 \<le> k \<Longrightarrow> 0 \<le> k smod l" "k \<le> 0 \<Longrightarrow> k smod l \<le> 0"
proof -
  consider "l = 0" | "0 < l" | "l < 0" by linarith
  then show "0 \<le> k \<Longrightarrow> 0 \<le> k smod l"
    by cases (simp_all add: smod_int_compares)
  consider "l = 0" | "0 < l" | "l < 0" by linarith
  then show "k \<le> 0 \<Longrightarrow> k smod l \<le> 0"
    by cases (simp_all add: smod_int_compares)
qed

text \<open>What \<^verbatim>\<open>op_op\<close> leaves in \<open>X[rd]\<close> for DIV, DIVU, REM and REMU.\<close>

lemma op_op_rv32m:
  assumes "dec_funct7 inst = 1" and "dec_rd inst \<noteq> 0" and "op_op rv inst = Some (ok, rv')"
  shows "dec_funct3 inst = 4 \<Longrightarrow> X rv' (dec_rd inst) =
           (if X rv (dec_rs2 inst) = 0 then NOT 0
            else if X rv (dec_rs2 inst) = - 1 \<and> X rv (dec_rs1 inst) = 0x80000000
            then X rv (dec_rs1 inst)
            else word_of_int (sint (X rv (dec_rs1 inst)) sdiv sint (X rv (dec_rs2 inst))))"
    and "dec_funct3 inst = 5 \<Longrightarrow> X rv' (dec_rd inst) =
           (if X rv (dec_rs2 inst) = 0 then NOT 0
            else X rv (dec_rs1 inst) div X rv (dec_rs2 inst))"
    and "dec_funct3 inst = 6 \<Longrightarrow> X rv' (dec_rd inst) =
           (if X rv (dec_rs2 inst) = 0 then X rv (dec_rs1 inst)
            else if X rv (dec_rs2 inst) = - 1 \<and> X rv (dec_rs1 inst) = 0x80000000
            then 0
            else word_of_int (sint (X rv (dec_rs1 inst)) smod sint (X rv (dec_rs2 inst))))"
    and "dec_funct3 inst = 7 \<Longrightarrow> X rv' (dec_rd inst) =
           (if X rv (dec_rs2 inst) = 0 then X rv (dec_rs1 inst)
            else X rv (dec_rs1 inst) mod X rv (dec_rs2 inst))"
  using assms
  by (auto simp: op_op_def Let_def set_X_def step_over_zero_def rv_reg_zero_def)

text \<open>
  Claim C6: DIV by zero gives \<^verbatim>\<open>0xFFFFFFFF\<close>, and \<^verbatim>\<open>0x80000000\<close> divided by
  \<^verbatim>\<open>0xFFFFFFFF\<close> gives \<^verbatim>\<open>0x80000000\<close>; DIVU by zero gives \<^verbatim>\<open>0xFFFFFFFF\<close>; REM by zero
  gives the dividend and 0 in the overflow case; REMU by zero gives the dividend; in every
  other case the signed quotient is truncated toward zero and the signed remainder has the
  sign of the dividend (and a magnitude below the divisor's), and the unsigned quotient and
  remainder are those of the unsigned values. Here \<open>a\<close> and \<open>b\<close> are \<open>X[rs1]\<close> and
  \<open>X[rs2]\<close> before the instruction and \<open>r\<close> is \<open>X[rd]\<close> after it, for \<open>rd\<close> other than 0.
\<close>

theorem op_op_division:
  assumes f7: "dec_funct7 inst = 1" and rd: "dec_rd inst \<noteq> 0"
    and e: "op_op rv inst = Some (ok, rv')"
    and a: "a = X rv (dec_rs1 inst)" and b: "b = X rv (dec_rs2 inst)"
    and r: "r = X rv' (dec_rd inst)"
  shows "(dec_funct3 inst = 4 \<longrightarrow>
            (b = 0 \<longrightarrow> r = 0xFFFFFFFF)
          \<and> (a = 0x80000000 \<and> b = 0xFFFFFFFF \<longrightarrow> r = 0x80000000)
          \<and> (b \<noteq> 0 \<and> \<not> (a = 0x80000000 \<and> b = 0xFFFFFFFF) \<longrightarrow>
                sint r = trunc_quotient (sint a) (sint b)))
       \<and> (dec_funct3 inst = 5 \<longrightarrow>
            (b = 0 \<longrightarrow> r = 0xFFFFFFFF)
          \<and> (b \<noteq> 0 \<longrightarrow> unat r = unat a div unat b))
       \<and> (dec_funct3 inst = 6 \<longrightarrow>
            (b = 0 \<longrightarrow> r = a)
          \<and> (a = 0x80000000 \<and> b = 0xFFFFFFFF \<longrightarrow> r = 0)
          \<and> (b \<noteq> 0 \<and> \<not> (a = 0x80000000 \<and> b = 0xFFFFFFFF) \<longrightarrow>
                sint r = sint a - sint b * trunc_quotient (sint a) (sint b)
              \<and> (0 \<le> sint a \<longrightarrow> 0 \<le> sint r) \<and> (sint a \<le> 0 \<longrightarrow> sint r \<le> 0)
              \<and> \<bar>sint r\<bar> < \<bar>sint b\<bar>))
       \<and> (dec_funct3 inst = 7 \<longrightarrow>
            (b = 0 \<longrightarrow> r = a)
          \<and> (b \<noteq> 0 \<longrightarrow> unat r = unat a mod unat b))"
proof (intro conjI impI)
  assume f3: "dec_funct3 inst = 4"
  note res = op_op_rv32m(1) [OF f7 rd e f3, folded a b r]
  show "r = 0xFFFFFFFF" if "b = 0" using res that by simp
  show "r = 0x80000000" if "a = 0x80000000 \<and> b = 0xFFFFFFFF" using res that by simp
  show "sint r = trunc_quotient (sint a) (sint b)"
    if h: "b \<noteq> 0 \<and> \<not> (a = 0x80000000 \<and> b = 0xFFFFFFFF)"
  proof -
    from h have n: "\<not> (b = - 1 \<and> a = 0x80000000)" by auto
    with h res have "r = word_of_int (sint a sdiv sint b)" by simp
    then have "sint r = sint a sdiv sint b"
      using sdiv32_in_range [OF n] by (simp add: sint_word_of_int_32)
    then show ?thesis by (simp add: trunc_quotient_def signed_divide_int_def)
  qed
next
  assume f3: "dec_funct3 inst = 5"
  note res = op_op_rv32m(2) [OF f7 rd e f3, folded a b r]
  show "r = 0xFFFFFFFF" if "b = 0" using res that by simp
  show "unat r = unat a div unat b" if "b \<noteq> 0" using res that by (simp add: unat_div)
next
  assume f3: "dec_funct3 inst = 6"
  note res = op_op_rv32m(3) [OF f7 rd e f3, folded a b r]
  show "r = a" if "b = 0" using res that by simp
  show "r = 0" if "a = 0x80000000 \<and> b = 0xFFFFFFFF" using res that by simp
  assume h: "b \<noteq> 0 \<and> \<not> (a = 0x80000000 \<and> b = 0xFFFFFFFF)"
  then have n: "\<not> (b = - 1 \<and> a = 0x80000000)" and nz: "b \<noteq> 0" by auto
  with res have "r = word_of_int (sint a smod sint b)" by simp
  then have s: "sint r = sint a smod sint b"
    using smod32_in_range(1,2) [OF nz] by (simp add: sint_word_of_int_32)
  have "sint a sdiv sint b * sint b + sint a smod sint b = sint a"
    by (rule sdiv_mult_smod_eq)
  then show "sint r = sint a - sint b * trunc_quotient (sint a) (sint b)"
    using s by (simp add: trunc_quotient_def signed_divide_int_def algebra_simps)
  show "0 \<le> sint r" if "0 \<le> sint a" using s that by (simp add: smod_sign)
  show "sint r \<le> 0" if "sint a \<le> 0" using s that by (simp add: smod_sign)
  show "\<bar>sint r\<bar> < \<bar>sint b\<bar>" using s smod32_in_range(3) [OF nz, of a] by simp
next
  assume f3: "dec_funct3 inst = 7"
  note res = op_op_rv32m(4) [OF f7 rd e f3, folded a b r]
  show "r = a" if "b = 0" using res that by simp
  show "unat r = unat a mod unat b" if "b \<noteq> 0" using res that by (simp add: unat_mod)
qed

text \<open>
  DIV and REM of \<open>-7\<close> by 2 give \<open>-3\<close> and \<open>-1\<close>; DIV and REM of \<^verbatim>\<open>0x80000000\<close> by
  \<^verbatim>\<open>0xFFFFFFFF\<close> give \<^verbatim>\<open>0x80000000\<close> and 0; DIVU and REMU of 42 by 0 give
  \<^verbatim>\<open>0xFFFFFFFF\<close> and 42.
\<close>

lemma div_example_hart_X:
  "X (div_example_hart a b) 1 = a" "X (div_example_hart a b) 2 = b"
  by (simp_all add: div_example_hart_def)

lemma div_fields:
  "dec_funct7 0x0220C1B3 = 1" "dec_funct3 0x0220C1B3 = 4" "dec_rd 0x0220C1B3 = 3"
  "dec_rs1 0x0220C1B3 = 1" "dec_rs2 0x0220C1B3 = 2"
  "dec_funct7 0x0220D1B3 = 1" "dec_funct3 0x0220D1B3 = 5" "dec_rd 0x0220D1B3 = 3"
  "dec_rs1 0x0220D1B3 = 1" "dec_rs2 0x0220D1B3 = 2"
  "dec_funct7 0x0220E1B3 = 1" "dec_funct3 0x0220E1B3 = 6" "dec_rd 0x0220E1B3 = 3"
  "dec_rs1 0x0220E1B3 = 1" "dec_rs2 0x0220E1B3 = 2"
  "dec_funct7 0x0220F1B3 = 1" "dec_funct3 0x0220F1B3 = 7" "dec_rd 0x0220F1B3 = 3"
  "dec_rs1 0x0220F1B3 = 1" "dec_rs2 0x0220F1B3 = 2"
  by (simp_all add: dec_funct7_def dec_funct3_def dec_rd_def dec_rs1_def dec_rs2_def)

lemma op_op_m_returns:
  "dec_funct7 inst = 1 \<Longrightarrow> dec_funct3 inst \<in> {4, 5, 6, 7} \<Longrightarrow> op_op rv inst \<noteq> None"
  by (auto simp: op_op_def Let_def step_over_zero_def)

theorem op_op_division_witness:
  "(\<exists>ok rv'. op_op (div_example_hart 0xFFFFFFF9 2) 0x0220C1B3 = Some (ok, rv')
       \<and> dec_funct7 0x0220C1B3 = 1 \<and> dec_funct3 0x0220C1B3 = 4
       \<and> sint (0xFFFFFFF9 :: u32) = - 7 \<and> sint (X rv' 3) = - 3)
   \<and> (\<exists>ok rv'. op_op (div_example_hart 0xFFFFFFF9 2) 0x0220E1B3 = Some (ok, rv')
       \<and> dec_funct7 0x0220E1B3 = 1 \<and> dec_funct3 0x0220E1B3 = 6
       \<and> sint (X rv' 3) = - 1)
   \<and> (\<exists>ok rv'. op_op (div_example_hart 0x80000000 0xFFFFFFFF) 0x0220C1B3 = Some (ok, rv')
       \<and> X rv' 3 = 0x80000000)
   \<and> (\<exists>ok rv'. op_op (div_example_hart 0x80000000 0xFFFFFFFF) 0x0220E1B3 = Some (ok, rv')
       \<and> X rv' 3 = 0)
   \<and> (\<exists>ok rv'. op_op (div_example_hart 42 0) 0x0220D1B3 = Some (ok, rv')
       \<and> dec_funct7 0x0220D1B3 = 1 \<and> dec_funct3 0x0220D1B3 = 5
       \<and> X rv' 3 = 0xFFFFFFFF)
   \<and> (\<exists>ok rv'. op_op (div_example_hart 42 0) 0x0220F1B3 = Some (ok, rv')
       \<and> dec_funct7 0x0220F1B3 = 1 \<and> dec_funct3 0x0220F1B3 = 7
       \<and> X rv' 3 = 42)"
proof -
  have rd: "dec_rd 0x0220C1B3 \<noteq> 0" "dec_rd 0x0220D1B3 \<noteq> 0" "dec_rd 0x0220E1B3 \<noteq> 0"
    "dec_rd 0x0220F1B3 \<noteq> 0"
    by (simp_all add: div_fields)
  have s7: "sint (0xFFFFFFF9 :: u32) = - 7" by simp
  obtain ok1 rv1 where e1: "op_op (div_example_hart 0xFFFFFFF9 2) 0x0220C1B3 = Some (ok1, rv1)"
    using op_op_m_returns [of "0x0220C1B3" "div_example_hart 0xFFFFFFF9 2"]
    by (auto simp: div_fields)
  obtain ok2 rv2 where e2: "op_op (div_example_hart 0xFFFFFFF9 2) 0x0220E1B3 = Some (ok2, rv2)"
    using op_op_m_returns [of "0x0220E1B3" "div_example_hart 0xFFFFFFF9 2"]
    by (auto simp: div_fields)
  obtain ok3 rv3 where
    e3: "op_op (div_example_hart 0x80000000 0xFFFFFFFF) 0x0220C1B3 = Some (ok3, rv3)"
    using op_op_m_returns [of "0x0220C1B3" "div_example_hart 0x80000000 0xFFFFFFFF"]
    by (auto simp: div_fields)
  obtain ok4 rv4 where
    e4: "op_op (div_example_hart 0x80000000 0xFFFFFFFF) 0x0220E1B3 = Some (ok4, rv4)"
    using op_op_m_returns [of "0x0220E1B3" "div_example_hart 0x80000000 0xFFFFFFFF"]
    by (auto simp: div_fields)
  obtain ok5 rv5 where e5: "op_op (div_example_hart 42 0) 0x0220D1B3 = Some (ok5, rv5)"
    using op_op_m_returns [of "0x0220D1B3" "div_example_hart 42 0"]
    by (auto simp: div_fields)
  obtain ok6 rv6 where e6: "op_op (div_example_hart 42 0) 0x0220F1B3 = Some (ok6, rv6)"
    using op_op_m_returns [of "0x0220F1B3" "div_example_hart 42 0"]
    by (auto simp: div_fields)
  have r1: "sint (X rv1 3) = - 3"
    using op_op_division [OF div_fields(1) rd(1) e1 refl refl refl]
    by (simp add: div_fields div_example_hart_X trunc_quotient_def)
  have r2: "sint (X rv2 3) = - 1"
    using op_op_division [OF div_fields(11) rd(3) e2 refl refl refl]
    by (simp add: div_fields div_example_hart_X trunc_quotient_def)
  have r3: "X rv3 3 = 0x80000000"
    using op_op_division [OF div_fields(1) rd(1) e3 refl refl refl]
    by (simp add: div_fields div_example_hart_X)
  have r4: "X rv4 3 = 0"
    using op_op_division [OF div_fields(11) rd(3) e4 refl refl refl]
    by (simp add: div_fields div_example_hart_X)
  have r5: "X rv5 3 = 0xFFFFFFFF"
    using op_op_division [OF div_fields(6) rd(2) e5 refl refl refl]
    by (simp add: div_fields div_example_hart_X)
  have r6: "X rv6 3 = 42"
    using op_op_division [OF div_fields(16) rd(4) e6 refl refl refl]
    by (simp add: div_fields div_example_hart_X)
  from e1 e2 e3 e4 e5 e6 r1 r2 r3 r4 r5 r6 s7 show ?thesis
    by (simp add: div_fields)
qed

end
